theory Spec2Isabelle
  imports Complex_Main "HOL-Library.Sublist"
begin

section \<open>Python values\<close>

text \<open>
  A Python \<open>str\<close> is a sequence of Unicode code points, so it is modelled as a list of
  natural numbers; \<open>py\<close> embeds an ASCII literal.
\<close>

type_synonym pystr = "nat list"

definition py :: "string \<Rightarrow> pystr" where
  "py s = map of_char s"

text \<open>
  The code points for which \<open>str.isspace\<close> holds; \<open>str.split()\<close> and \<open>str.strip()\<close>
  without arguments use the same set.
\<close>

definition isspace :: "nat \<Rightarrow> bool" where
  "isspace c \<longleftrightarrow>
     (9 \<le> c \<and> c \<le> 13) \<or> (28 \<le> c \<and> c \<le> 32) \<or> c = 133 \<or> c = 160 \<or> c = 5760 \<or>
     (8192 \<le> c \<and> c \<le> 8202) \<or> c = 8232 \<or> c = 8233 \<or> c = 8239 \<or> c = 8287 \<or> c = 12288"

text \<open>
  \<open>s.split()\<close>: runs of whitespace separate the words, and no empty word is produced.
  The second argument is the word being read.
\<close>

fun split_from :: "pystr \<Rightarrow> pystr \<Rightarrow> pystr list" where
  "split_from [] w = (if w = [] then [] else [w])"
| "split_from (c # cs) w =
     (if isspace c then (if w = [] then split_from cs [] else w # split_from cs [])
      else split_from cs (w @ [c]))"

definition py_split :: "pystr \<Rightarrow> pystr list" where
  "py_split s = split_from s []"

text \<open>\<open>s.strip()\<close>: leading and trailing whitespace removed.\<close>

definition py_strip :: "pystr \<Rightarrow> pystr" where
  "py_strip s = rev (dropWhile isspace (rev (dropWhile isspace s)))"

text \<open>
  The values that \<open>json\<close> decoding produces. A \<open>dict\<close> is kept as its list of items;
  \<open>map_of\<close> is the lookup. A \<open>float\<close> is kept as a real number; only its being zero
  or not is ever looked at.
\<close>

datatype pyval =
    PNone
  | PBool bool
  | PInt int
  | PFloat real
  | PStr pystr
  | PList "pyval list"
  | PDict "(pystr \<times> pyval) list"

text \<open>Truth value testing, as \<open>not response\<close> does it.\<close>

fun truthy :: "pyval \<Rightarrow> bool" where
  "truthy PNone = False"
| "truthy (PBool b) = b"
| "truthy (PInt i) = (i \<noteq> 0)"
| "truthy (PFloat r) = (r \<noteq> 0)"
| "truthy (PStr s) = (s \<noteq> [])"
| "truthy (PList xs) = (xs \<noteq> [])"
| "truthy (PDict d) = (d \<noteq> [])"

text \<open>
  The exceptions that can occur. The first four are classes of the HTTP library that
  derive from its \<open>RequestException\<close>; \<open>ValueError\<close> stands for a decoding error that
  does not; \<open>MarkupError\<close> is raised by the console library. An exception raised by a
  library carries what its text is made of: the text, or for \<open>HTTPError\<close> the status
  code and the reason phrase of the response.
\<close>

datatype exn =
    ConnectionError pystr
  | Timeout pystr
  | HTTPError nat pystr
  | JSONDecodeError pystr
  | ValueError pystr
  | TypeError
  | KeyError
  | IndexError
  | RuntimeError pystr
  | ValidationError
  | MarkupError pystr

fun is_RequestException :: "exn \<Rightarrow> bool" where
  "is_RequestException (ConnectionError _) = True"
| "is_RequestException (Timeout _) = True"
| "is_RequestException (HTTPError _ _) = True"
| "is_RequestException (JSONDecodeError _) = True"
| "is_RequestException _ = False"

text \<open>\<open>k in s\<close> for two strings: \<open>k\<close> occurs in \<open>s\<close> as a contiguous run.\<close>

fun str_contains :: "pystr \<Rightarrow> pystr \<Rightarrow> bool" where
  "str_contains [] k = (k = [])"
| "str_contains (c # cs) k = (take (length k) (c # cs) = k \<or> str_contains cs k)"

text \<open>\<open>k in v\<close> for a string \<open>k\<close>.\<close>

fun py_in :: "pystr \<Rightarrow> pyval \<Rightarrow> exn + bool" where
  "py_in k (PDict d) = Inr (k \<in> set (map fst d))"
| "py_in k (PList xs) = Inr (PStr k \<in> set xs)"
| "py_in k (PStr s) = Inr (str_contains s k)"
| "py_in k _ = Inl TypeError"

text \<open>\<open>v[k]\<close> for a string \<open>k\<close>.\<close>

fun getitem :: "pyval \<Rightarrow> pystr \<Rightarrow> exn + pyval" where
  "getitem (PDict d) k = (case map_of d k of None \<Rightarrow> Inl KeyError | Some v \<Rightarrow> Inr v)"
| "getitem _ k = Inl TypeError"

text \<open>
  \<open>v[0]\<close>. The keys of a decoded object are strings, so \<open>0\<close> is never among them.
\<close>

fun getitem0 :: "pyval \<Rightarrow> exn + pyval" where
  "getitem0 (PList []) = Inl IndexError"
| "getitem0 (PList (x # _)) = Inr x"
| "getitem0 (PStr []) = Inl IndexError"
| "getitem0 (PStr (c # _)) = Inr (PStr [c])"
| "getitem0 (PDict _) = Inl KeyError"
| "getitem0 _ = Inl TypeError"

text \<open>Sequencing of steps that may raise.\<close>

definition and_then :: "exn + 'a \<Rightarrow> ('a \<Rightarrow> exn + 'b) \<Rightarrow> exn + 'b" where
  "and_then r f = (case r of Inl e \<Rightarrow> Inl e | Inr v \<Rightarrow> f v)"

section \<open>Data model\<close>

text \<open>
  \<open>ConversationTurn\<close>. The reply is whatever value the response held at
  \<open>choices[0].message.content\<close>: the dataclass does not check its field types.
  The timestamp is the reading of \<open>time.time()\<close>.
\<close>

record ConversationTurn =
  user_message :: pystr
  assistant_response :: pyval
  timestamp :: real
  search_triggered :: bool

text \<open>A message of the request: the dict with the keys \<open>role\<close> and \<open>content\<close>.\<close>

record chat_message =
  role :: pystr
  content :: pyval

text \<open>The JSON body of the request.\<close>

record payload =
  model :: pystr
  messages :: "chat_message list"
  search_context_size :: pystr
  max_tokens :: nat
  temperature :: real
  stream :: bool

text \<open>One outbound call of \<open>requests.post\<close>: the URL, the bearer credential and the body.\<close>

record request =
  url :: pystr
  bearer :: pystr
  body :: payload

text \<open>
  What the HTTP library hands back: the status code, the reason phrase, and what
  \<open>response.json()\<close> does with the body (the decoded value, or the exception it raises).
\<close>

record http_response =
  status_code :: nat
  reason :: pystr
  json_result :: "exn + pyval"

text \<open>
  The remote service, as seen through \<open>requests.post\<close>: for each request either an
  exception or a response.
\<close>

type_synonym upstream = "request \<Rightarrow> exn + http_response"

text \<open>
  \<open>Response.raise_for_status()\<close> raises \<open>HTTPError\<close> for the status codes 400 to 599;
  the text of the error holds the status code and the reason phrase.
\<close>

definition raise_for_status :: "http_response \<Rightarrow> exn option" where
  "raise_for_status r =
     (if 400 \<le> status_code r \<and> status_code r < 600
      then Some (HTTPError (status_code r) (reason r)) else None)"

text \<open>Lines written to the console.\<close>

datatype console_line =
    ApiErrorLine exn
  | QuestionLine pystr
  | AssistantLine pyval
  | ReadyLine
  | GoodbyeLine
  | CatchYouLaterLine
  | WhoopsLine exn
  | BlankLine
  | ApiKeyRequiredPanel
  | WelcomePanel
  | GreetingLine

text \<open>
  What \<open>console.print\<close> does with a line that holds a text of the run (an error, the
  question, the answer): it prints the line, or it raises, as the console library does
  with a \<open>MarkupError\<close> when the text holds a closing tag that closes nothing. The
  lines made of literals only are always printed.
\<close>

type_synonym printing = "console_line \<Rightarrow> exn option"

section \<open>Completion client\<close>

text \<open>
  The result of a call that may write to the console and send requests: the requests
  sent, the lines printed, and the value returned or the exception that propagates.
\<close>

record 'a outcome =
  sent :: "request list"
  console :: "console_line list"
  ret :: "exn + 'a"

definition base_url :: pystr where
  "base_url = py ''https://api.perplexity.ai/chat/completions''"

text \<open>
  \<open>PerplexityAPI.chat\<close>. The \<open>except\<close> clause takes a \<open>RequestException\<close> raised by any
  of the three statements of the \<open>try\<close> block, prints it and returns \<open>None\<close>; any other
  exception propagates, and so does an exception raised while the error is printed.
\<close>

definition api_except :: "printing \<Rightarrow> request \<Rightarrow> exn \<Rightarrow> pyval outcome" where
  "api_except pr req e =
     (if is_RequestException e
      then (case pr (ApiErrorLine e) of
              None \<Rightarrow> \<lparr>sent = [req], console = [ApiErrorLine e], ret = Inr PNone\<rparr>
            | Some err \<Rightarrow> \<lparr>sent = [req], console = [], ret = Inl err\<rparr>)
      else \<lparr>sent = [req], console = [], ret = Inl e\<rparr>)"

definition api_chat ::
  "printing \<Rightarrow> upstream \<Rightarrow> pystr \<Rightarrow> chat_message list \<Rightarrow> pystr \<Rightarrow> pyval outcome" where
  "api_chat pr up api_key msgs scs =
     (let req = \<lparr>url = base_url, bearer = api_key,
                 body = \<lparr>model = py ''sonar'', messages = msgs, search_context_size = scs,
                          max_tokens = 300, temperature = 8 / 10, stream = False\<rparr>\<rparr>
      in case up req of
           Inl e \<Rightarrow> api_except pr req e
         | Inr response \<Rightarrow>
             (case raise_for_status response of
                Some e \<Rightarrow> api_except pr req e
              | None \<Rightarrow>
                  (case json_result response of
                     Inl e \<Rightarrow> api_except pr req e
                   | Inr v \<Rightarrow> \<lparr>sent = [req], console = [], ret = Inr v\<rparr>)))"

section \<open>Conversation manager\<close>

record TravelChatbot =
  api :: pystr
  conversation_history :: "ConversationTurn list"
  system_prompt :: pystr

definition SYSTEM_PROMPT :: pystr where
  "SYSTEM_PROMPT =
     py ''You are an EXCITED, friendly digital nomad travel assistant! '' @
     [127757, 10, 10] @
     py ''RULES - FOLLOW THESE EXACTLY:'' @
     [10, 9989] @
     py '' Keep responses SHORT and DIRECT (1-2 sentences max)'' @
     [10, 9989] @
     py '' Use an EXCITING, enthusiastic tone with emojis'' @
     [10, 9989] @
     py '' Give SPECIFIC, actionable info - no fluff or long explanations '' @
     py '' '' @
     [10, 9989] @
     py '' Be SUPER friendly and encouraging'' @
     [10, 9989] @
     py '' NO lengthy descriptions or unnecessary details'' @
     [10, 9989] @
     py '' Focus on what they NEED to know RIGHT NOW'' @
     [10, 10] @
     py ''For travel questions, give QUICK answers about:'' @
     [10] @
     py ''- Visa requirements (just the essentials)'' @
     [10] @
     py ''- Internet speeds (numbers and quick verdict)'' @
     [10] @
     py ''- Costs (specific prices, direct comparison)'' @
     [10] @
     py ''- Best locations (top 2-3 picks with why)'' @
     [10] @
     py ''- Coworking/accommodation (best options only)'' @
     [10, 10] @
     py ''Examples of perfect responses:'' @
     [10, 34] @
     py ''Portugal'' @
     [39] @
     py ''s D7 visa needs '' @
     [8364] @
     py ''2,760/month income proof - totally doable! '' @
     [127477, 127481] @
     py '' Apply online, takes 2-3 months.'' @
     [34, 10, 34] @
     py ''Lisbon gets 200+ Mbps, perfect for remote work! '' @
     [128187] @
     py '' Fiber everywhere, tons of coworking spaces.'' @
     [34, 10, 34] @
     py ''Bali is CHEAP! $500-800/month gets you a nice place. Food $2-5/m'' @
     py ''eal. You'' @
     [39] @
     py ''ll save tons! '' @
     [128176, 34, 10, 10] @
     py ''Be EXCITED to help but keep it SHORT and USEFUL!''"

definition TravelChatbot_init :: "pystr \<Rightarrow> TravelChatbot" where
  "TravelChatbot_init api_key =
     \<lparr>api = api_key, conversation_history = [], system_prompt = SYSTEM_PROMPT\<rparr>"

text \<open>
  \<open>xs[-limit:]\<close>: for a positive \<open>limit\<close> the last \<open>limit\<close> elements (all of them when
  there are fewer), for \<open>limit = 0\<close> the whole list, for a negative \<open>limit\<close> the list
  without its first \<open>-limit\<close> elements.
\<close>

definition slice_from_neg :: "'a list \<Rightarrow> int \<Rightarrow> 'a list" where
  "slice_from_neg xs limit =
     (if limit > 0 then drop (length xs - nat limit) xs else drop (nat (- limit)) xs)"

definition turn_messages :: "ConversationTurn \<Rightarrow> chat_message list" where
  "turn_messages turn =
     [\<lparr>role = py ''user'', content = PStr (user_message turn)\<rparr>,
      \<lparr>role = py ''assistant'', content = assistant_response turn\<rparr>]"

definition get_conversation_context :: "TravelChatbot \<Rightarrow> int \<Rightarrow> chat_message list" where
  "get_conversation_context self limit =
     (let recent_turns =
            (if conversation_history self \<noteq> [] then slice_from_neg (conversation_history self) limit
             else [])
      in \<lparr>role = py ''system'', content = PStr (system_prompt self)\<rparr>
           # concat (map turn_messages recent_turns))"

definition FALLBACK :: pystr where
  "FALLBACK = py ''Oops! Something went wrong. Try again? '' @ [129300]"

text \<open>The result of a call on a chatbot: the outcome of the call and the chatbot afterwards.\<close>

record 'a chat_result =
  out :: "'a outcome"
  self_after :: TravelChatbot

text \<open>
  \<open>TravelChatbot.chat\<close>. Both branches of \<open>show_progress\<close> are written out as in the
  source; the progress display itself is transient and leaves nothing on the console.
  \<open>now\<close> is the reading of \<open>time.time()\<close> when the turn is stored.
\<close>

definition chat ::
  "printing \<Rightarrow> upstream \<Rightarrow> real \<Rightarrow> TravelChatbot \<Rightarrow> pystr \<Rightarrow> bool \<Rightarrow> pyval chat_result" where
  "chat pr up now self user_input show_progress =
     (let msgs = get_conversation_context self 4
                   @ [\<lparr>role = py ''user'', content = PStr user_input\<rparr>];
          called =
            (if show_progress then
               (let word_count = length (py_split user_input);
                    search_context =
                      (if word_count > 15 then py ''high''
                       else if word_count > 8 then py ''medium''
                       else py ''low'')
                in api_chat pr up (api self) msgs search_context)
             else
               (let word_count = length (py_split user_input);
                    search_context =
                      (if word_count > 15 then py ''high''
                       else if word_count > 8 then py ''medium''
                       else py ''low'')
                in api_chat pr up (api self) msgs search_context))
      in case ret called of
           Inl e \<Rightarrow> \<lparr>out = called, self_after = self\<rparr>
         | Inr response \<Rightarrow>
             (if \<not> truthy response then \<lparr>out = called\<lparr>ret := Inr (PStr FALLBACK)\<rparr>, self_after = self\<rparr>
              else case py_in (py ''choices'') response of
                     Inl e \<Rightarrow> \<lparr>out = called\<lparr>ret := Inl e\<rparr>, self_after = self\<rparr>
                   | Inr has_choices \<Rightarrow>
                       (if \<not> has_choices
                        then \<lparr>out = called\<lparr>ret := Inr (PStr FALLBACK)\<rparr>, self_after = self\<rparr>
                        else case and_then (and_then (and_then (getitem response (py ''choices''))
                                      getitem0) (\<lambda>v. getitem v (py ''message'')))
                                      (\<lambda>v. getitem v (py ''content'')) of
                               Inl e \<Rightarrow> \<lparr>out = called\<lparr>ret := Inl e\<rparr>, self_after = self\<rparr>
                             | Inr answer \<Rightarrow>
                                 (let turn = \<lparr>user_message = user_input,
                                              assistant_response = answer,
                                              timestamp = now,
                                              search_triggered = True\<rparr>
                                  in \<lparr>out = called\<lparr>ret := Inr answer\<rparr>,
                                      self_after = self\<lparr>conversation_history :=
                                              conversation_history self @ [turn]\<rparr>\<rparr>))))"

text \<open>
  \<open>get_conversation_summary\<close>: either the text \<open>No conversation yet\<close>, or a line made of
  the number of turns, the number of turns with \<open>search_triggered\<close>, and the time of day
  of the first turn's timestamp (kept here as the timestamp).
\<close>

datatype summary = NoConversationYet | Summary nat nat real

definition get_conversation_summary :: "TravelChatbot \<Rightarrow> summary" where
  "get_conversation_summary self =
     (if conversation_history self = [] then NoConversationYet
      else Summary (length (conversation_history self))
             (length (filter search_triggered (conversation_history self)))
             (timestamp (hd (conversation_history self))))"

section \<open>Web entry points\<close>

text \<open>
  What the process meets outside: the two environment variables, the remote service,
  the clock, and the console.
\<close>

record environment =
  PERPLEXITY_API_KEY :: "pystr option"
  VERCEL :: "pystr option"
  service :: upstream
  clock :: real
  console_print :: printing

record ChatRequest =
  message :: pystr
  conversation_id :: "pystr option"

text \<open>
  \<open>ChatResponse\<close>. The source stores \<open>str(e)\<close> in \<open>error\<close>; the model keeps the
  exception \<open>e\<close> itself.
\<close>

record ChatResponse =
  response :: pystr
  success :: bool
  error :: "exn option"

text \<open>
  \<open>initialize_chatbot\<close>. The state is the global \<open>chatbot\<close>; the chatbot returned is
  also the value of the global afterwards. An unset and an empty credential are both
  refused. The line printed to the standard output when the chatbot is created is left
  out.
\<close>

definition initialize_chatbot :: "environment \<Rightarrow> TravelChatbot option \<Rightarrow> exn + TravelChatbot" where
  "initialize_chatbot env chatbot =
     (case chatbot of
        Some b \<Rightarrow> Inr b
      | None \<Rightarrow>
          (case PERPLEXITY_API_KEY env of
             None \<Rightarrow> Inl (RuntimeError (py ''PERPLEXITY_API_KEY environment variable is required''))
           | Some api_key \<Rightarrow>
               (if api_key = []
                then Inl (RuntimeError (py ''PERPLEXITY_API_KEY environment variable is required''))
                else Inr (TravelChatbot_init api_key))))"

text \<open>The result of serving a request: the outcome, and the global \<open>chatbot\<close> afterwards.\<close>

record 'a served =
  result :: "'a outcome"
  chatbot_after :: "TravelChatbot option"

definition READY_REPLY :: pystr where
  "READY_REPLY = [128173] @ py '' I'' @ [39] @ py ''m ready when you are! Ask me anything about travel!''"

text \<open>
  \<open>ChatResponse\<close> declares \<open>response: str\<close>; a value that is not a string does not
  pass the validation of the response model.
\<close>

fun validate_str :: "pyval \<Rightarrow> exn + pystr" where
  "validate_str (PStr s) = Inr s"
| "validate_str _ = Inl ValidationError"

definition chat_failed :: "exn \<Rightarrow> ChatResponse" where
  "chat_failed e = \<lparr>response = FALLBACK, success = False, error = Some e\<rparr>"

text \<open>
  \<open>chat_endpoint\<close>. Every exception of the \<open>try\<close> block ends in the \<open>except\<close> clause.
\<close>

definition chat_endpoint ::
  "environment \<Rightarrow> TravelChatbot option \<Rightarrow> ChatRequest \<Rightarrow> ChatResponse served" where
  "chat_endpoint env chatbot request =
     (case initialize_chatbot env chatbot of
        Inl e \<Rightarrow>
          \<lparr>result = \<lparr>sent = [], console = [], ret = Inr (chat_failed e)\<rparr>,
           chatbot_after = chatbot\<rparr>
      | Inr current_chatbot \<Rightarrow>
          (if py_strip (message request) = []
           then \<lparr>result = \<lparr>sent = [], console = [],
                             ret = Inr \<lparr>response = READY_REPLY, success = True, error = None\<rparr>\<rparr>,
                  chatbot_after = Some current_chatbot\<rparr>
           else
             (let r = chat (console_print env) (service env) (clock env) current_chatbot
                        (message request) False;
                  answered =
                    (case and_then (ret (out r)) validate_str of
                       Inl e \<Rightarrow> chat_failed e
                     | Inr text \<Rightarrow> \<lparr>response = text, success = True, error = None\<rparr>)
              in \<lparr>result = \<lparr>sent = sent (out r), console = console (out r), ret = Inr answered\<rparr>,
                  chatbot_after = Some (self_after r)\<rparr>)))"

record health =
  status :: pystr
  chatbot_ready :: bool
  health_message :: pystr
  environment_name :: pystr

definition RUNNING_MESSAGE :: pystr where
  "RUNNING_MESSAGE = [127757] @ py '' Travel Assistant API is running!''"

text \<open>\<open>health_check\<close>.\<close>

definition health_check :: "environment \<Rightarrow> TravelChatbot option \<Rightarrow> health served" where
  "health_check env chatbot =
     (let initialized = initialize_chatbot env chatbot;
          ready = (case initialized of Inl e \<Rightarrow> False | Inr current_chatbot \<Rightarrow> True);
          vercel = (case VERCEL env of None \<Rightarrow> False | Some v \<Rightarrow> v \<noteq> [])
      in \<lparr>result = \<lparr>sent = [], console = [],
                       ret = Inr \<lparr>status = py ''healthy'', chatbot_ready = ready,
                                  health_message = RUNNING_MESSAGE,
                                  environment_name = (if vercel then py ''vercel'' else py ''local'')\<rparr>\<rparr>,
          chatbot_after =
            (case initialized of Inl e \<Rightarrow> chatbot | Inr current_chatbot \<Rightarrow> Some current_chatbot)\<rparr>)"

text \<open>
  The body of the stats endpoint: the two counters, or the dict with the single key
  \<open>error\<close>.
\<close>

datatype stats = Stats (total_conversations: nat) (last_activity: "real option") | StatsError pystr

text \<open>\<open>get_stats\<close>. \<open>conversation_history[-1]\<close> is read only when the list is not empty.\<close>

definition get_stats :: "environment \<Rightarrow> TravelChatbot option \<Rightarrow> stats served" where
  "get_stats env chatbot =
     (case initialize_chatbot env chatbot of
        Inl e \<Rightarrow>
          \<lparr>result = \<lparr>sent = [], console = [], ret = Inr (StatsError (py ''Chatbot not initialized''))\<rparr>,
           chatbot_after = chatbot\<rparr>
      | Inr current_chatbot \<Rightarrow>
          \<lparr>result = \<lparr>sent = [], console = [],
                      ret = Inr (Stats (length (conversation_history current_chatbot))
                                   (if conversation_history current_chatbot \<noteq> []
                                    then Some (timestamp (last (conversation_history current_chatbot)))
                                    else None))\<rparr>,
           chatbot_after = Some current_chatbot\<rparr>)"

section \<open>Command-line entry points\<close>

text \<open>
  \<open>single_question_mode\<close>. Nothing is caught here: an exception raised while the
  question is printed ends the call before \<open>chat\<close> is reached, an exception of \<open>chat\<close>
  propagates, and so does one raised while the answer is printed.
\<close>

definition single_question_mode ::
  "printing \<Rightarrow> upstream \<Rightarrow> real \<Rightarrow> TravelChatbot \<Rightarrow> pystr \<Rightarrow> pyval chat_result" where
  "single_question_mode pr up now chatbot question =
     (case pr (QuestionLine question) of
        Some e \<Rightarrow> \<lparr>out = \<lparr>sent = [], console = [], ret = Inl e\<rparr>, self_after = chatbot\<rparr>
      | None \<Rightarrow>
          (let r = chat pr up now chatbot question True
           in case ret (out r) of
                Inl e \<Rightarrow>
                  \<lparr>out = \<lparr>sent = sent (out r), console = QuestionLine question # console (out r),
                          ret = Inl e\<rparr>,
                   self_after = self_after r\<rparr>
              | Inr answer \<Rightarrow>
                  (case pr (AssistantLine answer) of
                     Some e \<Rightarrow>
                       \<lparr>out = \<lparr>sent = sent (out r),
                               console = QuestionLine question # console (out r),
                               ret = Inl e\<rparr>,
                        self_after = self_after r\<rparr>
                   | None \<Rightarrow>
                       \<lparr>out = \<lparr>sent = sent (out r),
                               console = QuestionLine question # console (out r)
                                           @ [AssistantLine answer],
                               ret = Inr PNone\<rparr>,
                        self_after = self_after r\<rparr>)))"

text \<open>
  What \<open>Prompt.ask\<close> does in one pass of the loop: a line is entered, the user
  interrupts, or the prompt raises some other exception.
\<close>

datatype prompt_event = Entered pystr | KeyboardInterrupt | PromptError exn

definition EXIT_COMMANDS :: "pystr list" where
  "EXIT_COMMANDS = [py ''quit'', py ''exit'', py ''bye'', py ''goodbye'']"

datatype loop_control = Continue | Break

text \<open>
  The clause \<open>except Exception as e\<close> of the loop, entered with the requests sent and the
  lines printed so far: it prints the error and the loop goes on; an exception raised
  while the error is printed leaves the loop.
\<close>

definition loop_except ::
  "printing \<Rightarrow> exn \<Rightarrow> request list \<Rightarrow> console_line list \<Rightarrow> TravelChatbot
     \<Rightarrow> loop_control chat_result" where
  "loop_except pr e reqs lines chatbot =
     (case pr (WhoopsLine e) of
        None \<Rightarrow>
          \<lparr>out = \<lparr>sent = reqs, console = lines @ [WhoopsLine e], ret = Inr Continue\<rparr>,
           self_after = chatbot\<rparr>
      | Some err \<Rightarrow>
          \<lparr>out = \<lparr>sent = reqs, console = lines, ret = Inl err\<rparr>, self_after = chatbot\<rparr>)"

text \<open>
  The body of the loop of \<open>interactive_mode\<close>. \<open>lower\<close> is \<open>str.lower\<close>, the case
  mapping of the runtime. An interrupt is taken at the prompt only.
\<close>

definition interactive_turn ::
  "printing \<Rightarrow> (pystr \<Rightarrow> pystr) \<Rightarrow> upstream \<Rightarrow> real \<Rightarrow> TravelChatbot \<Rightarrow> prompt_event
     \<Rightarrow> loop_control chat_result" where
  "interactive_turn pr lower up now chatbot ev =
     (case ev of
        KeyboardInterrupt \<Rightarrow>
          \<lparr>out = \<lparr>sent = [], console = [CatchYouLaterLine], ret = Inr Break\<rparr>, self_after = chatbot\<rparr>
      | PromptError e \<Rightarrow> loop_except pr e [] [] chatbot
      | Entered user_input \<Rightarrow>
          (if py_strip (lower user_input) \<in> set EXIT_COMMANDS
           then \<lparr>out = \<lparr>sent = [], console = [GoodbyeLine], ret = Inr Break\<rparr>, self_after = chatbot\<rparr>
           else if py_strip user_input = []
           then \<lparr>out = \<lparr>sent = [], console = [ReadyLine], ret = Inr Continue\<rparr>, self_after = chatbot\<rparr>
           else
             (let r = chat pr up now chatbot user_input True
              in case ret (out r) of
                   Inl e \<Rightarrow> loop_except pr e (sent (out r)) (BlankLine # console (out r)) (self_after r)
                 | Inr answer \<Rightarrow>
                     (case pr (AssistantLine answer) of
                        Some e \<Rightarrow>
                          loop_except pr e (sent (out r)) (BlankLine # console (out r)) (self_after r)
                      | None \<Rightarrow>
                          \<lparr>out = \<lparr>sent = sent (out r),
                                  console = BlankLine # console (out r)
                                              @ [AssistantLine answer, BlankLine],
                                  ret = Inr Continue\<rparr>,
                           self_after = self_after r\<rparr>))))"

text \<open>
  The loop, run on a script: for each pass what the prompt does, and the service and the
  clock that pass meets. The loop ends at a \<open>break\<close> or with an exception that leaves
  it; when the script is used up it is still waiting at the prompt.
\<close>

datatype session_end = Ended | AwaitingInput

fun interactive_loop ::
  "printing \<Rightarrow> (pystr \<Rightarrow> pystr) \<Rightarrow> TravelChatbot \<Rightarrow> (prompt_event \<times> upstream \<times> real) list
     \<Rightarrow> session_end chat_result" where
  "interactive_loop pr lower chatbot [] =
     \<lparr>out = \<lparr>sent = [], console = [], ret = Inr AwaitingInput\<rparr>, self_after = chatbot\<rparr>"
| "interactive_loop pr lower chatbot ((ev, up, now) # script) =
     (let r = interactive_turn pr lower up now chatbot ev
      in if ret (out r) = Inr Continue
         then
           (let s = interactive_loop pr lower (self_after r) script
            in \<lparr>out = \<lparr>sent = sent (out r) @ sent (out s),
                        console = console (out r) @ console (out s),
                        ret = ret (out s)\<rparr>,
                self_after = self_after s\<rparr>)
         else
           \<lparr>out = \<lparr>sent = sent (out r), console = console (out r),
                   ret = (case ret (out r) of Inl e \<Rightarrow> Inl e | Inr c \<Rightarrow> Inr Ended)\<rparr>,
            self_after = self_after r\<rparr>)"

definition interactive_mode ::
  "printing \<Rightarrow> (pystr \<Rightarrow> pystr) \<Rightarrow> TravelChatbot \<Rightarrow> (prompt_event \<times> upstream \<times> real) list
     \<Rightarrow> session_end chat_result" where
  "interactive_mode pr lower chatbot script =
     (let s = interactive_loop pr lower chatbot script
      in \<lparr>out = \<lparr>sent = sent (out s), console = WelcomePanel # GreetingLine # console (out s),
                  ret = ret (out s)\<rparr>,
          self_after = self_after s\<rparr>)"

text \<open>
  \<open>main\<close>, from the parsed argument on. The process ends with \<open>sys.exit(1)\<close> when the
  credential is unset or empty, returns, dies of an uncaught exception, or is still
  waiting at the prompt.
\<close>

datatype process_end = SysExit nat | Returned | Uncaught exn | Waiting

record main_result =
  requests :: "request list"
  printed :: "console_line list"
  ending :: process_end

definition main ::
  "(pystr \<Rightarrow> pystr) \<Rightarrow> environment \<Rightarrow> pystr option \<Rightarrow> (prompt_event \<times> upstream \<times> real) list
     \<Rightarrow> main_result" where
  "main lower env question script =
     (case (case PERPLEXITY_API_KEY env of None \<Rightarrow> None
            | Some k \<Rightarrow> if k = [] then None else Some k) of
        None \<Rightarrow> \<lparr>requests = [], printed = [ApiKeyRequiredPanel], ending = SysExit 1\<rparr>
      | Some api_key \<Rightarrow>
          (let chatbot = TravelChatbot_init api_key
           in case (case question of None \<Rightarrow> None
                    | Some q \<Rightarrow> if q = [] then None else Some q) of
                Some q \<Rightarrow>
                  (let r = single_question_mode (console_print env) (service env) (clock env) chatbot q
                   in \<lparr>requests = sent (out r), printed = console (out r),
                       ending = (case ret (out r) of Inl e \<Rightarrow> Uncaught e | Inr v \<Rightarrow> Returned)\<rparr>)
              | None \<Rightarrow>
                  (let s = interactive_mode (console_print env) lower chatbot script
                   in \<lparr>requests = sent (out s), printed = console (out s),
                       ending = (case ret (out s) of
                                   Inr Ended \<Rightarrow> Returned
                                 | Inr AwaitingInput \<Rightarrow> Waiting
                                 | Inl e \<Rightarrow> Uncaught e)\<rparr>)))"

section \<open>Auxiliary notions\<close>

text \<open>
  The message list and the search breadth that \<open>chat\<close> hands to the client, the chain
  of subscripts \<open>['choices'][0]['message']['content']\<close>, and the part of \<open>chat\<close> after the
  call of the client.
\<close>

definition chat_messages :: "TravelChatbot \<Rightarrow> pystr \<Rightarrow> chat_message list" where
  "chat_messages self user_input =
     get_conversation_context self 4 @ [\<lparr>role = py ''user'', content = PStr user_input\<rparr>]"

definition search_context_of :: "pystr \<Rightarrow> pystr" where
  "search_context_of user_input =
     (if length (py_split user_input) > 15 then py ''high''
      else if length (py_split user_input) > 8 then py ''medium''
      else py ''low'')"

definition first_content :: "pyval \<Rightarrow> exn + pyval" where
  "first_content v =
     and_then (and_then (and_then (getitem v (py ''choices'')) getitem0)
       (\<lambda>v. getitem v (py ''message''))) (\<lambda>v. getitem v (py ''content''))"

definition chat_finish :: "pyval outcome \<Rightarrow> real \<Rightarrow> TravelChatbot \<Rightarrow> pystr \<Rightarrow> pyval chat_result" where
  "chat_finish called now self user_input =
     (case ret called of
        Inl e \<Rightarrow> \<lparr>out = called, self_after = self\<rparr>
      | Inr v \<Rightarrow>
          (if \<not> truthy v then \<lparr>out = called\<lparr>ret := Inr (PStr FALLBACK)\<rparr>, self_after = self\<rparr>
           else case py_in (py ''choices'') v of
                  Inl e \<Rightarrow> \<lparr>out = called\<lparr>ret := Inl e\<rparr>, self_after = self\<rparr>
                | Inr has_choices \<Rightarrow>
                    (if \<not> has_choices
                     then \<lparr>out = called\<lparr>ret := Inr (PStr FALLBACK)\<rparr>, self_after = self\<rparr>
                     else case first_content v of
                            Inl e \<Rightarrow> \<lparr>out = called\<lparr>ret := Inl e\<rparr>, self_after = self\<rparr>
                          | Inr answer \<Rightarrow>
                              \<lparr>out = called\<lparr>ret := Inr answer\<rparr>,
                               self_after = self\<lparr>conversation_history :=
                                       conversation_history self
                                         @ [\<lparr>user_message = user_input,
                                             assistant_response = answer,
                                             timestamp = now,
                                             search_triggered = True\<rparr>]\<rparr>\<rparr>)))"

text \<open>
  What the client returns to \<open>chat\<close> for a chatbot and an input: the value, when no
  exception propagates.
\<close>

definition client_result :: "printing \<Rightarrow> upstream \<Rightarrow> TravelChatbot \<Rightarrow> pystr \<Rightarrow> exn + pyval" where
  "client_result pr up self user_input =
     ret (api_chat pr up (api self) (chat_messages self user_input) (search_context_of user_input))"

text \<open>
  The expected completion field, in the words of the specification: the response is an
  object whose \<open>choices\<close> is a list, whose first choice is an object with a \<open>message\<close>
  object that has a \<open>content\<close>.
\<close>

fun completion :: "pyval \<Rightarrow> pyval option" where
  "completion (PDict d) =
     (case map_of d (py ''choices'') of
        Some (PList (PDict c # _)) \<Rightarrow>
          (case map_of c (py ''message'') of
             Some (PDict m) \<Rightarrow> map_of m (py ''content'')
           | _ \<Rightarrow> None)
      | _ \<Rightarrow> None)"
| "completion _ = None"

text \<open>The history behind the global \<open>chatbot\<close>; there is none before the first use.\<close>

definition history_of :: "TravelChatbot option \<Rightarrow> ConversationTurn list" where
  "history_of chatbot = (case chatbot of None \<Rightarrow> [] | Some b \<Rightarrow> conversation_history b)"

text \<open>A text that is empty or made of whitespace only.\<close>

definition blank :: "pystr \<Rightarrow> bool" where
  "blank s \<longleftrightarrow> list_all isspace s"

text \<open>The request that the client builds.\<close>

definition api_request :: "pystr \<Rightarrow> chat_message list \<Rightarrow> pystr \<Rightarrow> request" where
  "api_request api_key msgs scs =
     \<lparr>url = base_url, bearer = api_key,
      body = \<lparr>model = py ''sonar'', messages = msgs, search_context_size = scs,
               max_tokens = 300, temperature = 8 / 10, stream = False\<rparr>\<rparr>"

text \<open>
  The requests served one after the other by the web application, each with the
  environment it meets, and the global \<open>chatbot\<close> after them.
\<close>

datatype web_request = PostChat ChatRequest | GetHealth | GetStats

definition serve :: "environment \<Rightarrow> TravelChatbot option \<Rightarrow> web_request \<Rightarrow> TravelChatbot option" where
  "serve env chatbot rq =
     (case rq of
        PostChat request \<Rightarrow> chatbot_after (chat_endpoint env chatbot request)
      | GetHealth \<Rightarrow> chatbot_after (health_check env chatbot)
      | GetStats \<Rightarrow> chatbot_after (get_stats env chatbot))"

fun is_chat :: "web_request \<Rightarrow> bool" where
  "is_chat (PostChat request) = True"
| "is_chat GetHealth = False"
| "is_chat GetStats = False"

fun serve_all :: "TravelChatbot option \<Rightarrow> (environment \<times> web_request) list \<Rightarrow> TravelChatbot option" where
  "serve_all chatbot [] = chatbot"
| "serve_all chatbot ((env, rq) # rest) = serve_all (serve env chatbot rq) rest"

section \<open>Example inputs\<close>

text \<open>A service that cannot be reached, and one that answers with a status and a body.\<close>

definition service_down :: upstream where
  "service_down req = Inl (ConnectionError (py ''connection refused''))"

definition service_answering :: "nat \<Rightarrow> pystr \<Rightarrow> pyval \<Rightarrow> upstream" where
  "service_answering code phrase v req =
     Inr \<lparr>status_code = code, reason = phrase, json_result = Inr v\<rparr>"

definition service_garbled :: "exn \<Rightarrow> upstream" where
  "service_garbled e req = Inr \<lparr>status_code = 200, reason = py ''OK'', json_result = Inl e\<rparr>"

text \<open>
  A console for the example inputs. The text of a line is the text of the run that it
  holds (an answer that is not a string counts as holding none); the console refuses a
  line whose text holds the start of a closing tag, and the text of its error holds the
  refused text. On texts without a bracket, and on the text \<open>[/x]\<close>, this is what the
  console library does.
\<close>

fun exn_text :: "exn \<Rightarrow> pystr" where
  "exn_text (ConnectionError s) = s"
| "exn_text (Timeout s) = s"
| "exn_text (HTTPError code phrase) = phrase"
| "exn_text (JSONDecodeError s) = s"
| "exn_text (ValueError s) = s"
| "exn_text (RuntimeError s) = s"
| "exn_text (MarkupError s) = s"
| "exn_text _ = []"

fun line_text :: "console_line \<Rightarrow> pystr" where
  "line_text (ApiErrorLine e) = exn_text e"
| "line_text (WhoopsLine e) = exn_text e"
| "line_text (QuestionLine q) = q"
| "line_text (AssistantLine (PStr s)) = s"
| "line_text _ = []"

definition example_console :: printing where
  "example_console line =
     (if str_contains (line_text line) (py ''[/'') then Some (MarkupError (line_text line))
      else None)"

text \<open>A well-formed response with one choice, and one with an empty list of choices.\<close>

definition reply_with :: "pystr \<Rightarrow> pyval" where
  "reply_with s =
     PDict [(py ''id'', PStr (py ''r1'')),
            (py ''choices'',
             PList [PDict [(py ''index'', PInt 0),
                           (py ''message'',
                            PDict [(py ''role'', PStr (py ''assistant'')),
                                   (py ''content'', PStr s)])]])]"

definition reply_without_choices :: pyval where
  "reply_without_choices = PDict [(py ''id'', PStr (py ''r1'')), (py ''choices'', PList [])]"

text \<open>An environment with the credential set, and one without it.\<close>

definition env_with_key :: "upstream \<Rightarrow> environment" where
  "env_with_key up =
     \<lparr>PERPLEXITY_API_KEY = Some (py ''pplx-key''), VERCEL = None, service = up, clock = 1000,
      console_print = example_console\<rparr>"

definition env_without_key :: "upstream \<Rightarrow> environment" where
  "env_without_key up =
     \<lparr>PERPLEXITY_API_KEY = None, VERCEL = None, service = up, clock = 1000,
      console_print = example_console\<rparr>"

text \<open>A chatbot with the turns numbered by the given list.\<close>

definition numbered_turn :: "nat \<Rightarrow> ConversationTurn" where
  "numbered_turn n =
     \<lparr>user_message = [113, n], assistant_response = PStr [97, n], timestamp = real n,
      search_triggered = True\<rparr>"

definition chatbot_with :: "nat list \<Rightarrow> TravelChatbot" where
  "chatbot_with ns =
     \<lparr>api = py ''pplx-key'', conversation_history = map numbered_turn ns,
      system_prompt = SYSTEM_PROMPT\<rparr>"

text \<open>The case mapping restricted to the ASCII letters.\<close>

definition ascii_lower :: "pystr \<Rightarrow> pystr" where
  "ascii_lower s = map (\<lambda>c. if 65 \<le> c \<and> c \<le> 90 then c + 32 else c) s"

section \<open>Words and blanks\<close>

text \<open>\<open>not s.strip()\<close> holds exactly for the blank texts.\<close>

lemma strip_blank: "py_strip s = [] \<longleftrightarrow> blank s"
proof -
  have "py_strip s = [] \<longleftrightarrow> (\<forall>c \<in> set (dropWhile isspace s). isspace c)"
    by (simp add: py_strip_def dropWhile_eq_Nil_conv)
  also have "\<dots> \<longleftrightarrow> dropWhile isspace s = []"
  proof
    assume all: "\<forall>c \<in> set (dropWhile isspace s). isspace c"
    show "dropWhile isspace s = []"
    proof (rule ccontr)
      assume ne: "dropWhile isspace s \<noteq> []"
      then have "\<not> isspace (hd (dropWhile isspace s))"
        by (rule hd_dropWhile)
      moreover from ne have "hd (dropWhile isspace s) \<in> set (dropWhile isspace s)"
        by simp
      ultimately show False using all by blast
    qed
  next
    assume e: "dropWhile isspace s = []"
    show "\<forall>c \<in> set (dropWhile isspace s). isspace c"
      unfolding e by simp
  qed
  also have "\<dots> \<longleftrightarrow> blank s"
    by (simp add: dropWhile_eq_Nil_conv blank_def list_all_iff)
  finally show ?thesis .
qed

text \<open>
  The words of \<open>s.split()\<close> are not empty and hold no whitespace; put together they are
  the text without its whitespace; a blank text has no words.
\<close>

lemma split_from_words: "w' \<in> set (split_from s w) \<Longrightarrow> w' \<noteq> []"
  by (induction s w rule: split_from.induct) (auto split: if_splits)

lemma split_from_no_space:
  "\<forall>c \<in> set w. \<not> isspace c \<Longrightarrow> w' \<in> set (split_from s w) \<Longrightarrow> c \<in> set w' \<Longrightarrow> \<not> isspace c"
  by (induction s w rule: split_from.induct) (auto split: if_splits)

lemma concat_split_from: "concat (split_from s w) = w @ filter (\<lambda>c. \<not> isspace c) s"
  by (induction s w rule: split_from.induct) auto

lemma split_blank: "blank s \<Longrightarrow> py_split s = []"
  unfolding py_split_def blank_def
  by (induction s) auto

section \<open>The request that a chat call sends\<close>

lemma api_except_sent: "sent (api_except pr req e) = [req]"
  by (simp add: api_except_def split: option.splits)

lemma api_chat_sent: "sent (api_chat pr up k msgs scs) = [api_request k msgs scs]"
  by (simp add: api_chat_def api_request_def api_except_sent Let_def split: sum.splits option.splits)

lemma chat_eq:
  "chat pr up now self user_input show_progress =
     chat_finish (api_chat pr up (api self) (chat_messages self user_input) (search_context_of user_input))
       now self user_input"
  unfolding chat_def chat_finish_def chat_messages_def search_context_of_def first_content_def
    Let_def if_cancel
  by (rule refl)

lemma chat_finish_sent: "sent (out (chat_finish called now self user_input)) = sent called"
  by (simp add: chat_finish_def split: sum.splits)

lemma chat_sent:
  "sent (out (chat pr up now self user_input show_progress)) =
     [api_request (api self) (chat_messages self user_input) (search_context_of user_input)]"
  by (simp only: chat_eq chat_finish_sent api_chat_sent)

text \<open>
  C2: the search breadth of the request that a chat call sends is decided by the number
  of words of \<open>user_input.split()\<close> alone, whatever the chatbot, the service, the clock
  and the progress flag: more than 15 words give \<open>high\<close>, 9 to 15 words \<open>medium\<close>, at
  most 8 words \<open>low\<close>.
\<close>

theorem C2_search_breadth:
  "map (search_context_size \<circ> body) (sent (out (chat pr up now self user_input show_progress))) =
     [if 15 < length (py_split user_input) then py ''high''
      else if 8 < length (py_split user_input) then py ''medium''
      else py ''low'']"
  by (simp add: chat_sent api_request_def search_context_of_def)

theorem C2_search_breadth_witness:
  "map (search_context_size \<circ> body)
     (sent (out (chat example_console service_down 0 (chatbot_with []) (py ''Tell me about Bali visas'') True))) =
     [py ''low'']
   \<and> map (search_context_size \<circ> body)
     (sent (out (chat example_console service_down 0 (chatbot_with [])
        (py ''one two three four five six seven eight nine ten'') False))) =
     [py ''medium'']
   \<and> map (search_context_size \<circ> body)
     (sent (out (chat example_console service_down 0 (chatbot_with [])
        (py ''a b c d e f g h i j k l m n o p q r s t'') False))) =
     [py ''high'']"
proof -
  have 1: "length (py_split (py ''Tell me about Bali visas'')) = 5"
    by (simp add: py_split_def py_def isspace_def)
  have 2: "length (py_split (py ''one two three four five six seven eight nine ten'')) = 10"
    by (simp add: py_split_def py_def isspace_def)
  have 3: "length (py_split (py ''a b c d e f g h i j k l m n o p q r s t'')) = 20"
    by (simp add: py_split_def py_def isspace_def)
  show ?thesis
    using C2_search_breadth [of example_console service_down 0 "chatbot_with []" "py ''Tell me about Bali visas''" True]
      C2_search_breadth [of example_console service_down 0 "chatbot_with []"
        "py ''one two three four five six seven eight nine ten''" False]
      C2_search_breadth [of example_console service_down 0 "chatbot_with []"
        "py ''a b c d e f g h i j k l m n o p q r s t''" False]
    by (simp only: 1 2 3) simp
qed

lemma slice_last4: "slice_from_neg h 4 = drop (length h - min 4 (length h)) h"
  by (simp add: slice_from_neg_def min_def)

lemma context_eq:
  "get_conversation_context self 4 =
     \<lparr>role = py ''system'', content = PStr (system_prompt self)\<rparr>
       # concat (map turn_messages
           (drop (length (conversation_history self) - min 4 (length (conversation_history self)))
              (conversation_history self)))"
  by (simp add: get_conversation_context_def slice_last4 Let_def)

lemma length_concat_turns: "length (concat (map turn_messages ts)) = 2 * length ts"
  by (induction ts) (simp_all add: turn_messages_def)

text \<open>
  C5: the message list of the request that a chat call sends is the system prompt,
  then the last \<open>min 4 n\<close> of the \<open>n\<close> turns of the history in their order, each as a
  user message followed by an assistant message, then the new user message; it has
  \<open>1 + 2 * min 4 n + 1\<close> messages, which is at most 10.
\<close>

theorem C5_context_assembly:
  "map (messages \<circ> body) (sent (out (chat pr up now self user_input show_progress))) =
     [\<lparr>role = py ''system'', content = PStr (system_prompt self)\<rparr>
        # concat (map (\<lambda>turn. [\<lparr>role = py ''user'', content = PStr (user_message turn)\<rparr>,
                                 \<lparr>role = py ''assistant'', content = assistant_response turn\<rparr>])
            (drop (length (conversation_history self) - min 4 (length (conversation_history self)))
               (conversation_history self)))
        @ [\<lparr>role = py ''user'', content = PStr user_input\<rparr>]]
   \<and> map (length \<circ> messages \<circ> body) (sent (out (chat pr up now self user_input show_progress))) =
     [1 + 2 * min 4 (length (conversation_history self)) + 1]
   \<and> 1 + 2 * min 4 (length (conversation_history self)) + 1 \<le> 10"
proof -
  have turns: "turn_messages = (\<lambda>turn. [\<lparr>role = py ''user'', content = PStr (user_message turn)\<rparr>,
                                 \<lparr>role = py ''assistant'', content = assistant_response turn\<rparr>])"
    by (rule ext) (simp add: turn_messages_def)
  have len: "length (chat_messages self user_input) =
      1 + 2 * min 4 (length (conversation_history self)) + 1"
    by (simp add: chat_messages_def context_eq length_concat_turns)
  have a: "map (messages \<circ> body) (sent (out (chat pr up now self user_input show_progress))) =
     [chat_messages self user_input]"
    by (simp add: chat_sent api_request_def)
  have b: "map (length \<circ> messages \<circ> body) (sent (out (chat pr up now self user_input show_progress))) =
     [length (chat_messages self user_input)]"
    by (simp add: chat_sent api_request_def)
  show ?thesis
    unfolding a b len
    by (simp add: chat_messages_def context_eq turns)
qed

theorem C5_context_assembly_witness:
  "map (messages \<circ> body)
     (sent (out (chat example_console service_down 0 (chatbot_with [1, 2, 3, 4, 5, 6]) (py ''hi'') False))) =
     [[\<lparr>role = py ''system'', content = PStr SYSTEM_PROMPT\<rparr>,
       \<lparr>role = py ''user'', content = PStr [113, 3]\<rparr>,
       \<lparr>role = py ''assistant'', content = PStr [97, 3]\<rparr>,
       \<lparr>role = py ''user'', content = PStr [113, 4]\<rparr>,
       \<lparr>role = py ''assistant'', content = PStr [97, 4]\<rparr>,
       \<lparr>role = py ''user'', content = PStr [113, 5]\<rparr>,
       \<lparr>role = py ''assistant'', content = PStr [97, 5]\<rparr>,
       \<lparr>role = py ''user'', content = PStr [113, 6]\<rparr>,
       \<lparr>role = py ''assistant'', content = PStr [97, 6]\<rparr>,
       \<lparr>role = py ''user'', content = PStr (py ''hi'')\<rparr>]]
   \<and> map (length \<circ> messages \<circ> body)
     (sent (out (chat example_console service_down 0 (chatbot_with [1, 2, 3, 4, 5, 6]) (py ''hi'') False))) = [10]"
  using C5_context_assembly [of example_console service_down 0 "chatbot_with [1, 2, 3, 4, 5, 6]" "py ''hi''" False]
  by (simp add: chatbot_with_def numbered_turn_def)

section \<open>The outcome of a chat call\<close>

lemma getitem_Inr: "getitem v k = Inr a \<longleftrightarrow> (\<exists>d. v = PDict d \<and> map_of d k = Some a)"
  by (cases v) (auto split: option.splits)

lemma getitem0_Inr:
  "getitem0 v = Inr a \<longleftrightarrow>
     (\<exists>xs. v = PList (a # xs)) \<or> (\<exists>c cs. v = PStr (c # cs) \<and> a = PStr [c])"
  by (cases v rule: getitem0.cases) auto

lemma and_then_Inr: "and_then r f = Inr b \<longleftrightarrow> (\<exists>a. r = Inr a \<and> f a = Inr b)"
  by (cases r) (simp_all add: and_then_def)

text \<open>
  The chain of subscripts of the source succeeds exactly on the responses that hold the
  completion field, and then yields it.
\<close>

lemma completion_first_content:
  assumes "completion v = Some a"
  shows "first_content v = Inr a" and "truthy v" and "py_in (py ''choices'') v = Inr True"
proof -
  from assms obtain d where v: "v = PDict d"
    by (cases v) simp_all
  from assms v obtain c rest where ch: "map_of d (py ''choices'') = Some (PList (PDict c # rest))"
    by (auto split: option.splits pyval.splits list.splits)
  from assms v ch obtain m where ms: "map_of c (py ''message'') = Some (PDict m)"
    by (auto split: option.splits pyval.splits)
  from assms v ch ms have co: "map_of m (py ''content'') = Some a"
    by simp
  show "first_content v = Inr a"
    by (simp add: first_content_def and_then_def v ch ms co)
  from ch have "d \<noteq> []" by auto
  then show "truthy v" by (simp add: v)
  from ch have "py ''choices'' \<in> fst ` set d"
    by (metis map_of_eq_None_iff option.distinct(1))
  then show "py_in (py ''choices'') v = Inr True"
    by (simp add: v)
qed

lemma first_content_completion:
  assumes "first_content v = Inr a"
  shows "completion v = Some a"
proof -
  from assms obtain x y z where
    x: "getitem v (py ''choices'') = Inr x" and y: "getitem0 x = Inr y" and
    z: "getitem y (py ''message'') = Inr z" and a: "getitem z (py ''content'') = Inr a"
    unfolding first_content_def and_then_Inr by blast
  from x obtain d where d: "v = PDict d" "map_of d (py ''choices'') = Some x"
    unfolding getitem_Inr by blast
  from z obtain c where c: "y = PDict c" "map_of c (py ''message'') = Some z"
    unfolding getitem_Inr by blast
  from a obtain m where m: "z = PDict m" "map_of m (py ''content'') = Some a"
    unfolding getitem_Inr by blast
  from y c(1) obtain rest where r: "x = PList (PDict c # rest)"
    unfolding getitem0_Inr by auto
  show ?thesis
    by (simp add: d r c m)
qed

lemma chat_ret_client:
  "ret (out (chat pr up now self user_input show_progress)) =
     (case client_result pr up self user_input of
        Inl e \<Rightarrow> Inl e
      | Inr v \<Rightarrow>
          (if \<not> truthy v then Inr (PStr FALLBACK)
           else case py_in (py ''choices'') v of
                  Inl e \<Rightarrow> Inl e
                | Inr has_choices \<Rightarrow> if \<not> has_choices then Inr (PStr FALLBACK) else first_content v))"
  by (simp add: chat_eq chat_finish_def client_result_def split: sum.splits)

lemma chat_bot_client:
  "self_after (chat pr up now self user_input show_progress) =
     (case client_result pr up self user_input of
        Inl e \<Rightarrow> self
      | Inr v \<Rightarrow>
          (if \<not> truthy v then self
           else case py_in (py ''choices'') v of
                  Inl e \<Rightarrow> self
                | Inr has_choices \<Rightarrow>
                    if \<not> has_choices then self
                    else case first_content v of
                           Inl e \<Rightarrow> self
                         | Inr answer \<Rightarrow>
                             self\<lparr>conversation_history :=
                                    conversation_history self
                                      @ [\<lparr>user_message = user_input, assistant_response = answer,
                                          timestamp = now, search_triggered = True\<rparr>]\<rparr>))"
  by (simp add: chat_eq chat_finish_def client_result_def split: sum.splits)

lemma api_chat_answering:
  "\<not> (400 \<le> code \<and> code < 600) \<Longrightarrow>
     api_chat pr (service_answering code phrase v) k msgs scs =
       \<lparr>sent = [api_request k msgs scs], console = [], ret = Inr v\<rparr>"
  by (auto simp add: api_chat_def api_request_def service_answering_def raise_for_status_def)

lemma api_chat_down:
  "api_chat example_console service_down k msgs scs =
     \<lparr>sent = [api_request k msgs scs],
      console = [ApiErrorLine (ConnectionError (py ''connection refused''))], ret = Inr PNone\<rparr>"
  by (simp add: api_chat_def api_request_def service_down_def api_except_def example_console_def
      py_def)

lemma client_result_answering:
  "\<not> (400 \<le> code \<and> code < 600) \<Longrightarrow>
     client_result pr (service_answering code phrase v) self user_input = Inr v"
  by (simp add: client_result_def api_chat_answering)

lemma client_result_down: "client_result example_console service_down self user_input = Inr PNone"
  by (simp add: client_result_def api_chat_down)

lemma completion_reply_with: "completion (reply_with s) = Some (PStr s)"
  by (simp add: reply_with_def py_def)

text \<open>
  C6: when the response that the client returns holds the completion field, the chat call
  returns that field, and the history afterwards is the history before followed by one
  turn, made of the input as it is, the field, the clock reading, and
  \<open>search_triggered = True\<close>; so the history is longer by exactly one.
\<close>

theorem C6_successful_turn:
  assumes "client_result pr up self user_input = Inr v" and "completion v = Some answer"
  shows "ret (out (chat pr up now self user_input show_progress)) = Inr answer
    \<and> conversation_history (self_after (chat pr up now self user_input show_progress)) =
        conversation_history self
          @ [\<lparr>user_message = user_input, assistant_response = answer, timestamp = now,
              search_triggered = True\<rparr>]
    \<and> length (conversation_history (self_after (chat pr up now self user_input show_progress))) =
        length (conversation_history self) + 1"
  using assms completion_first_content [OF assms(2)]
  by (simp add: chat_ret_client chat_bot_client)

theorem C6_successful_turn_witness:
  "client_result example_console (service_answering 200 (py ''OK'') (reply_with (py ''Lisbon!''))) (chatbot_with [1, 2]) (py ''Where to?'')
     = Inr (reply_with (py ''Lisbon!''))
   \<and> completion (reply_with (py ''Lisbon!'')) = Some (PStr (py ''Lisbon!''))
   \<and> ret (out (chat example_console (service_answering 200 (py ''OK'') (reply_with (py ''Lisbon!''))) 1700 (chatbot_with [1, 2])
         (py ''Where to?'') False)) = Inr (PStr (py ''Lisbon!''))
   \<and> conversation_history (self_after (chat example_console (service_answering 200 (py ''OK'') (reply_with (py ''Lisbon!''))) 1700
         (chatbot_with [1, 2]) (py ''Where to?'') False)) =
       [numbered_turn 1, numbered_turn 2,
        \<lparr>user_message = py ''Where to?'', assistant_response = PStr (py ''Lisbon!''),
         timestamp = 1700, search_triggered = True\<rparr>]"
proof -
  have c: "client_result example_console (service_answering 200 (py ''OK'') (reply_with (py ''Lisbon!''))) (chatbot_with [1, 2])
      (py ''Where to?'') = Inr (reply_with (py ''Lisbon!''))"
    by (simp add: client_result_answering)
  have f: "completion (reply_with (py ''Lisbon!'')) = Some (PStr (py ''Lisbon!''))"
    by (rule completion_reply_with)
  show ?thesis
    using C6_successful_turn [OF c f, of 1700 False] c f
    by (simp add: chatbot_with_def)
qed

text \<open>
  C3, at a response whose list of choices is empty: the response is an object with the
  key \<open>choices\<close>, so the guard of \<open>chat\<close> lets it pass, and the subscript \<open>[0]\<close> raises
  \<open>IndexError\<close>; the call does not return the fallback text.
\<close>

theorem C3_empty_choices_raises:
  "client_result example_console (service_answering 200 (py ''OK'') reply_without_choices) (chatbot_with []) (py ''hi'')
     = Inr reply_without_choices
   \<and> completion reply_without_choices = None
   \<and> ret (out (chat example_console (service_answering 200 (py ''OK'') reply_without_choices) 0 (chatbot_with []) (py ''hi'') True))
     = Inl IndexError"
proof -
  have c: "client_result example_console (service_answering 200 (py ''OK'') reply_without_choices) (chatbot_with []) (py ''hi'')
     = Inr reply_without_choices"
    by (simp add: client_result_answering)
  have f: "first_content reply_without_choices = Inl IndexError"
    by (simp add: first_content_def and_then_def reply_without_choices_def py_def)
  have i: "py_in (py ''choices'') reply_without_choices = Inr True"
    by (simp add: reply_without_choices_def py_def)
  have t: "truthy reply_without_choices"
    by (simp add: reply_without_choices_def)
  have n: "completion reply_without_choices = None"
    by (simp add: reply_without_choices_def py_def)
  show ?thesis
    by (simp add: chat_ret_client c f i t n)
qed

text \<open>
  The part of C3 that the guard does cover: a falsy result, or one without \<open>choices\<close>,
  gives the fallback text and leaves the chatbot as it was.
\<close>

lemma chat_fallback:
  assumes "client_result pr up self user_input = Inr v"
    and "\<not> truthy v \<or> py_in (py ''choices'') v = Inr False"
  shows "ret (out (chat pr up now self user_input show_progress)) = Inr (PStr FALLBACK)"
    and "self_after (chat pr up now self user_input show_progress) = self"
  using assms by (auto simp add: chat_ret_client chat_bot_client)

section \<open>The chat endpoint\<close>

lemma init_history:
  "initialize_chatbot env chatbot = Inr b \<Longrightarrow> conversation_history b = history_of chatbot"
  by (auto simp add: initialize_chatbot_def history_of_def TravelChatbot_init_def
      split: option.splits if_splits)

lemma chat_endpoint_chat:
  assumes "initialize_chatbot env chatbot = Inr b" and "py_strip (message request) \<noteq> []"
  shows "ret (result (chat_endpoint env chatbot request)) =
      Inr (case and_then (ret (out (chat (console_print env) (service env) (clock env) b (message request) False)))
                  validate_str of
             Inl e \<Rightarrow> chat_failed e
           | Inr text \<Rightarrow> \<lparr>response = text, success = True, error = None\<rparr>)"
    and "chatbot_after (chat_endpoint env chatbot request) =
      Some (self_after (chat (console_print env) (service env) (clock env) b (message request) False))"
    and "sent (result (chat_endpoint env chatbot request)) =
      sent (out (chat (console_print env) (service env) (clock env) b (message request) False))"
  using assms by (simp_all add: chat_endpoint_def Let_def)

text \<open>
  C1, as amended: when the client returns its null result, the chat call returns the
  fallback text and the history is unchanged; the chat endpoint then answers with the
  fallback text, \<open>success = True\<close> and no error.
\<close>

theorem C1_null_result:
  assumes "initialize_chatbot env chatbot = Inr b"
    and "\<not> blank (message request)"
    and "client_result (console_print env) (service env) b (message request) = Inr PNone"
  shows "ret (out (chat (console_print env) (service env) (clock env) b (message request) show_progress)) =
      Inr (PStr FALLBACK)
    \<and> conversation_history (self_after (chat (console_print env) (service env) (clock env) b (message request) show_progress)) =
      conversation_history b
    \<and> ret (result (chat_endpoint env chatbot request)) =
      Inr \<lparr>response = FALLBACK, success = True, error = None\<rparr>
    \<and> history_of (chatbot_after (chat_endpoint env chatbot request)) = history_of chatbot"
proof -
  have n: "\<not> truthy PNone \<or> py_in (py ''choices'') PNone = Inr False"
    by simp
  have s: "py_strip (message request) \<noteq> []"
    using assms(2) by (simp add: strip_blank)
  note fb = chat_fallback [OF assms(3) n]
  show ?thesis
    using init_history [OF assms(1)]
    by (simp add: fb chat_endpoint_chat [OF assms(1) s] and_then_def history_of_def)
qed

theorem C1_null_result_witness:
  "initialize_chatbot (env_with_key service_down) (Some (chatbot_with [1, 2])) = Inr (chatbot_with [1, 2])
   \<and> \<not> blank (message \<lparr>message = py ''hello there'', conversation_id = Some (py ''default'')\<rparr>)
   \<and> client_result (console_print (env_with_key service_down)) (service (env_with_key service_down)) (chatbot_with [1, 2])
        (message \<lparr>message = py ''hello there'', conversation_id = Some (py ''default'')\<rparr>) = Inr PNone
   \<and> ret (result (chat_endpoint (env_with_key service_down) (Some (chatbot_with [1, 2]))
        \<lparr>message = py ''hello there'', conversation_id = Some (py ''default'')\<rparr>)) =
      Inr \<lparr>response = FALLBACK, success = True, error = None\<rparr>
   \<and> history_of (chatbot_after (chat_endpoint (env_with_key service_down) (Some (chatbot_with [1, 2]))
        \<lparr>message = py ''hello there'', conversation_id = Some (py ''default'')\<rparr>)) =
      [numbered_turn 1, numbered_turn 2]"
proof -
  let ?env = "env_with_key service_down"
  let ?rq = "\<lparr>message = py ''hello there'', conversation_id = Some (py ''default'')\<rparr>"
  have i: "initialize_chatbot ?env (Some (chatbot_with [1, 2])) = Inr (chatbot_with [1, 2])"
    by (simp add: initialize_chatbot_def)
  have s: "\<not> blank (message ?rq)"
    by (simp add: blank_def py_def isspace_def)
  have c: "client_result (console_print ?env) (service ?env) (chatbot_with [1, 2]) (message ?rq) = Inr PNone"
    by (simp add: env_with_key_def client_result_down)
  show ?thesis
    using C1_null_result [OF i s c, of False] i s c
    by (simp add: history_of_def chatbot_with_def)
qed

text \<open>
  C1, as stated, fails: with the service unreachable the client returns its null result,
  and the chat endpoint answers with \<open>success = True\<close> and no error.
\<close>

theorem C1_success_flag_counterexample:
  "client_result example_console service_down (TravelChatbot_init (py ''pplx-key'')) (py ''hi'') = Inr PNone
   \<and> ret (result (chat_endpoint (env_with_key service_down) None
        \<lparr>message = py ''hi'', conversation_id = Some (py ''default'')\<rparr>)) =
      Inr \<lparr>response = FALLBACK, success = True, error = None\<rparr>
   \<and> \<not> (success \<lparr>response = FALLBACK, success = True, error = None\<rparr> = False
        \<and> error \<lparr>response = FALLBACK, success = True, error = None\<rparr> \<noteq> None)"
proof -
  let ?env = "env_with_key service_down"
  let ?rq = "\<lparr>message = py ''hi'', conversation_id = Some (py ''default'')\<rparr>"
  have i: "initialize_chatbot ?env None = Inr (TravelChatbot_init (py ''pplx-key''))"
    by (simp add: initialize_chatbot_def env_with_key_def py_def)
  have s: "py_strip (message ?rq) \<noteq> []"
    by (simp add: py_strip_def py_def isspace_def)
  have c: "client_result example_console service_down (TravelChatbot_init (py ''pplx-key'')) (py ''hi'') = Inr PNone"
    by (rule client_result_down)
  have e: "service ?env = service_down" "console_print ?env = example_console"
    by (simp_all add: env_with_key_def)
  have r: "ret (out (chat example_console service_down (clock ?env) (TravelChatbot_init (py ''pplx-key'')) (py ''hi'') False))
      = Inr (PStr FALLBACK)"
    by (simp add: chat_ret_client c)
  show ?thesis
    using chat_endpoint_chat(1) [OF i s]
    by (simp add: c e r and_then_def)
qed

section \<open>The completion client\<close>

lemma api_chat_outcome:
  "api_chat pr up k msgs scs =
     (case up (api_request k msgs scs) of
        Inl e \<Rightarrow> api_except pr (api_request k msgs scs) e
      | Inr r \<Rightarrow>
          (if 400 \<le> status_code r \<and> status_code r < 600
           then api_except pr (api_request k msgs scs) (HTTPError (status_code r) (reason r))
           else case json_result r of
                  Inl e \<Rightarrow> api_except pr (api_request k msgs scs) e
                | Inr v \<Rightarrow> \<lparr>sent = [api_request k msgs scs], console = [], ret = Inr v\<rparr>))"
  by (simp add: api_chat_def api_request_def raise_for_status_def Let_def split: sum.splits)

text \<open>
  C7, as amended: when the console prints the error line, a \<open>RequestException\<close> raised by
  the transport, a status from 400 to 599, or a \<open>RequestException\<close> raised while the body
  is decoded makes the client print that one line and return its null result, with no
  exception for the caller; for any other status with a body that decodes, the client
  returns the decoded body as it is.
\<close>

theorem C7_client_failures:
  "(up (api_request k msgs scs) = Inl e \<longrightarrow> is_RequestException e \<longrightarrow>
      pr (ApiErrorLine e) = None \<longrightarrow>
      api_chat pr up k msgs scs =
        \<lparr>sent = [api_request k msgs scs], console = [ApiErrorLine e], ret = Inr PNone\<rparr>)
   \<and> (up (api_request k msgs scs) = Inr r \<longrightarrow> 400 \<le> status_code r \<longrightarrow> status_code r < 600 \<longrightarrow>
      pr (ApiErrorLine (HTTPError (status_code r) (reason r))) = None \<longrightarrow>
      api_chat pr up k msgs scs =
        \<lparr>sent = [api_request k msgs scs],
         console = [ApiErrorLine (HTTPError (status_code r) (reason r))], ret = Inr PNone\<rparr>)
   \<and> (up (api_request k msgs scs) = Inr r \<longrightarrow> \<not> (400 \<le> status_code r \<and> status_code r < 600) \<longrightarrow>
      json_result r = Inl e \<longrightarrow> is_RequestException e \<longrightarrow> pr (ApiErrorLine e) = None \<longrightarrow>
      api_chat pr up k msgs scs =
        \<lparr>sent = [api_request k msgs scs], console = [ApiErrorLine e], ret = Inr PNone\<rparr>)
   \<and> (up (api_request k msgs scs) = Inr r \<longrightarrow> \<not> (400 \<le> status_code r \<and> status_code r < 600) \<longrightarrow>
      json_result r = Inr v \<longrightarrow>
      api_chat pr up k msgs scs = \<lparr>sent = [api_request k msgs scs], console = [], ret = Inr v\<rparr>)"
  by (auto simp add: api_chat_outcome api_except_def)

theorem C7_client_failures_witness:
  "api_chat example_console service_down (py ''pplx-key'') [] (py ''low'') =
     \<lparr>sent = [api_request (py ''pplx-key'') [] (py ''low'')],
      console = [ApiErrorLine (ConnectionError (py ''connection refused''))], ret = Inr PNone\<rparr>
   \<and> api_chat example_console (service_answering 503 (py ''Service Unavailable'') PNone)
        (py ''pplx-key'') [] (py ''low'') =
     \<lparr>sent = [api_request (py ''pplx-key'') [] (py ''low'')],
      console = [ApiErrorLine (HTTPError 503 (py ''Service Unavailable''))], ret = Inr PNone\<rparr>
   \<and> api_chat example_console (service_garbled (JSONDecodeError (py ''Expecting value'')))
        (py ''pplx-key'') [] (py ''low'') =
     \<lparr>sent = [api_request (py ''pplx-key'') [] (py ''low'')],
      console = [ApiErrorLine (JSONDecodeError (py ''Expecting value''))], ret = Inr PNone\<rparr>
   \<and> api_chat example_console (service_answering 200 (py ''OK'') (reply_with (py ''ok'')))
        (py ''pplx-key'') [] (py ''low'') =
     \<lparr>sent = [api_request (py ''pplx-key'') [] (py ''low'')],
      console = [], ret = Inr (reply_with (py ''ok''))\<rparr>"
proof -
  have p: "example_console (ApiErrorLine (ConnectionError (py ''connection refused''))) = None"
    "example_console (ApiErrorLine (HTTPError 503 (py ''Service Unavailable''))) = None"
    "example_console (ApiErrorLine (JSONDecodeError (py ''Expecting value''))) = None"
    by (simp_all add: example_console_def py_def)
  show ?thesis
    using C7_client_failures [where pr = example_console and up = service_down
        and k = "py ''pplx-key''" and msgs = "[]" and scs = "py ''low''"
        and e = "ConnectionError (py ''connection refused'')"]
      C7_client_failures [where pr = example_console
        and up = "service_answering 503 (py ''Service Unavailable'') PNone"
        and k = "py ''pplx-key''" and msgs = "[]" and scs = "py ''low''"
        and r = "\<lparr>status_code = 503, reason = py ''Service Unavailable'', json_result = Inr PNone\<rparr>"]
      C7_client_failures [where pr = example_console
        and up = "service_garbled (JSONDecodeError (py ''Expecting value''))"
        and k = "py ''pplx-key''" and msgs = "[]" and scs = "py ''low''"
        and e = "JSONDecodeError (py ''Expecting value'')"
        and r = "\<lparr>status_code = 200, reason = py ''OK'',
                  json_result = Inl (JSONDecodeError (py ''Expecting value''))\<rparr>"]
      C7_client_failures [where pr = example_console
        and up = "service_answering 200 (py ''OK'') (reply_with (py ''ok''))"
        and k = "py ''pplx-key''" and msgs = "[]" and scs = "py ''low''"
        and r = "\<lparr>status_code = 200, reason = py ''OK'', json_result = Inr (reply_with (py ''ok''))\<rparr>"
        and v = "reply_with (py ''ok'')"]
    by (simp add: service_down_def service_answering_def service_garbled_def p)
qed

text \<open>
  C7, as stated, fails: the status 300 is not a 2xx status, and the client returns the
  decoded body and prints nothing.
\<close>

theorem C7_non_2xx_counterexample:
  "api_chat example_console (service_answering 300 (py ''Multiple Choices'') (reply_with (py ''ok'')))
      (py ''pplx-key'') [] (py ''low'') =
     \<lparr>sent = [api_request (py ''pplx-key'') [] (py ''low'')],
      console = [], ret = Inr (reply_with (py ''ok''))\<rparr>
   \<and> reply_with (py ''ok'') \<noteq> PNone"
  by (simp add: api_chat_answering reply_with_def)

text \<open>
  When the console refuses the error line, the exception of the console leaves the
  client: here the reason phrase of a 503 response holds a closing tag.
\<close>

lemma api_chat_markup_error:
  "api_chat example_console (service_answering 503 (py ''[/x]'') PNone) k msgs scs =
     \<lparr>sent = [api_request k msgs scs], console = [], ret = Inl (MarkupError (py ''[/x]''))\<rparr>"
  by (simp add: api_chat_outcome api_except_def service_answering_def example_console_def py_def)

section \<open>The stats endpoint\<close>

lemma init_ok_iff:
  "(\<exists>b. initialize_chatbot env chatbot = Inr b) \<longleftrightarrow>
     chatbot \<noteq> None \<or> (\<exists>k. PERPLEXITY_API_KEY env = Some k \<and> k \<noteq> [])"
  by (auto simp add: initialize_chatbot_def split: option.splits)

lemma get_stats_ok:
  assumes "initialize_chatbot env chatbot = Inr b"
  shows "ret (result (get_stats env chatbot)) =
      Inr (Stats (length (history_of chatbot))
             (if history_of chatbot = [] then None else Some (timestamp (last (history_of chatbot)))))"
    and "chatbot_after (get_stats env chatbot) = Some b"
  using assms init_history [OF assms] by (simp_all add: get_stats_def)

text \<open>
  C8: once there is a chatbot (the global is set, or the credential is there to create
  one), the stats endpoint returns the length of the history as \<open>total_conversations\<close>,
  and as \<open>last_activity\<close> the timestamp of the last turn of the history, or \<open>None\<close> when
  the history is empty.
\<close>

theorem C8_stats:
  assumes "chatbot \<noteq> None \<or> (\<exists>k. PERPLEXITY_API_KEY env = Some k \<and> k \<noteq> [])"
  shows "ret (result (get_stats env chatbot)) =
      Inr (Stats (length (history_of chatbot))
             (if history_of chatbot = [] then None else Some (timestamp (last (history_of chatbot)))))"
proof -
  from assms obtain b where "initialize_chatbot env chatbot = Inr b"
    unfolding init_ok_iff [symmetric] by blast
  then show ?thesis by (rule get_stats_ok(1))
qed

theorem C8_stats_witness:
  "ret (result (get_stats (env_without_key service_down) (Some (chatbot_with [1, 2, 3])))) =
       Inr (Stats 3 (Some 3))
   \<and> PERPLEXITY_API_KEY (env_with_key service_down) = Some (py ''pplx-key'')
   \<and> ret (result (get_stats (env_with_key service_down) None)) = Inr (Stats 0 None)"
proof -
  have a: "Some (chatbot_with [1, 2, 3]) \<noteq> None
      \<or> (\<exists>k. PERPLEXITY_API_KEY (env_without_key service_down) = Some k \<and> k \<noteq> [])"
    by simp
  have b: "None \<noteq> (None :: TravelChatbot option)
      \<or> (\<exists>k. PERPLEXITY_API_KEY (env_with_key service_down) = Some k \<and> k \<noteq> [])"
    by (simp add: env_with_key_def py_def)
  show ?thesis
    using C8_stats [OF a] C8_stats [OF b]
    by (simp add: history_of_def chatbot_with_def numbered_turn_def env_with_key_def)
qed

section \<open>The history only grows at its end\<close>

lemma chat_history_prefix:
  "prefix (conversation_history self)
     (conversation_history (self_after (chat pr up now self user_input show_progress)))"
  by (simp add: chat_bot_client split: sum.splits)

lemma chat_history_length:
  "length (conversation_history (self_after (chat pr up now self user_input show_progress)))
     \<le> length (conversation_history self) + 1"
  by (simp add: chat_bot_client split: sum.splits)

lemma health_history: "history_of (chatbot_after (health_check env chatbot)) = history_of chatbot"
  by (cases "initialize_chatbot env chatbot")
     (simp_all add: health_check_def Let_def init_history history_of_def)

lemma stats_history: "history_of (chatbot_after (get_stats env chatbot)) = history_of chatbot"
  by (cases "initialize_chatbot env chatbot")
     (simp_all add: get_stats_def init_history history_of_def)

lemma chat_endpoint_after:
  "chatbot_after (chat_endpoint env chatbot request) =
     (case initialize_chatbot env chatbot of
        Inl e \<Rightarrow> chatbot
      | Inr b \<Rightarrow>
          if py_strip (message request) = [] then Some b
          else Some (self_after (chat (console_print env) (service env) (clock env) b (message request) False)))"
  by (simp add: chat_endpoint_def Let_def split: sum.splits)

lemma chat_endpoint_prefix:
  "prefix (history_of chatbot) (history_of (chatbot_after (chat_endpoint env chatbot request)))"
proof (cases "initialize_chatbot env chatbot")
  case (Inl e)
  then show ?thesis by (simp add: chat_endpoint_after)
next
  case (Inr b)
  then show ?thesis
    using chat_history_prefix [of b "console_print env" "service env" "clock env" "message request" False]
    by (simp add: chat_endpoint_after history_of_def init_history [OF Inr])
qed

lemma chat_endpoint_length:
  "length (history_of (chatbot_after (chat_endpoint env chatbot request)))
     \<le> length (history_of chatbot) + 1"
proof (cases "initialize_chatbot env chatbot")
  case (Inl e)
  then show ?thesis by (simp add: chat_endpoint_after)
next
  case (Inr b)
  then show ?thesis
    using chat_history_length [of "console_print env" "service env" "clock env" b "message request" False]
    by (simp add: chat_endpoint_after history_of_def init_history [OF Inr])
qed

lemma serve_prefix: "prefix (history_of chatbot) (history_of (serve env chatbot rq))"
  by (cases rq) (simp_all add: serve_def chat_endpoint_prefix health_history stats_history)

lemma serve_length:
  "length (history_of (serve env chatbot rq))
     \<le> length (history_of chatbot) + (if is_chat rq then 1 else 0)"
  using chat_endpoint_length [of env chatbot]
  by (cases rq) (simp_all add: serve_def health_history stats_history)

lemma serve_all_prefix: "prefix (history_of chatbot) (history_of (serve_all chatbot script))"
proof (induction script arbitrary: chatbot)
  case Nil
  show ?case by simp
next
  case (Cons step script)
  obtain env rq where step: "step = (env, rq)" by (cases step)
  have "prefix (history_of chatbot) (history_of (serve env chatbot rq))"
    by (rule serve_prefix)
  also have "prefix (history_of (serve env chatbot rq))
      (history_of (serve_all (serve env chatbot rq) script))"
    by (rule Cons.IH)
  finally show ?case by (simp add: step)
qed

lemma serve_all_length:
  "length (history_of (serve_all chatbot script))
     \<le> length (history_of chatbot) + length (filter is_chat (map snd script))"
proof (induction script arbitrary: chatbot)
  case Nil
  show ?case by simp
next
  case (Cons step script)
  obtain env rq where step: "step = (env, rq)" by (cases step)
  have "length (history_of (serve_all (serve env chatbot rq) script))
      \<le> length (history_of (serve env chatbot rq)) + length (filter is_chat (map snd script))"
    by (rule Cons.IH)
  with serve_length [of env chatbot rq] show ?case
    by (simp add: step split: if_splits)
qed

lemma single_question_sent:
  "pr (QuestionLine question) = None \<Longrightarrow>
     sent (out (single_question_mode pr up now chatbot question)) =
       sent (out (chat pr up now chatbot question True))"
  by (simp add: single_question_mode_def Let_def split: sum.splits option.splits)

lemma single_question_after:
  "self_after (single_question_mode pr up now chatbot question) = chatbot
   \<or> self_after (single_question_mode pr up now chatbot question) =
       self_after (chat pr up now chatbot question True)"
  by (simp add: single_question_mode_def Let_def split: sum.splits option.splits)

lemma single_question_prefix:
  "prefix (conversation_history chatbot)
     (conversation_history (self_after (single_question_mode pr up now chatbot question)))"
  using single_question_after [of pr up now chatbot question]
    chat_history_prefix [of chatbot pr up now question True]
  by auto

lemma single_question_length:
  "length (conversation_history (self_after (single_question_mode pr up now chatbot question)))
     \<le> length (conversation_history chatbot) + 1"
  using single_question_after [of pr up now chatbot question]
    chat_history_length [of pr up now chatbot question True]
  by auto

lemma loop_except_after: "self_after (loop_except pr e reqs lines chatbot) = chatbot"
  by (simp add: loop_except_def split: option.splits)

lemma interactive_turn_after:
  "self_after (interactive_turn pr lower up now chatbot ev) = chatbot
   \<or> (\<exists>user_input. self_after (interactive_turn pr lower up now chatbot ev) =
         self_after (chat pr up now chatbot user_input True))"
  by (cases ev)
     (auto simp add: interactive_turn_def loop_except_after Let_def split: sum.splits option.splits)

lemma interactive_turn_prefix:
  "prefix (conversation_history chatbot)
     (conversation_history (self_after (interactive_turn pr lower up now chatbot ev)))"
  using interactive_turn_after [of pr lower up now chatbot ev]
    chat_history_prefix [of chatbot pr up now]
  by auto

lemma interactive_turn_length:
  "length (conversation_history (self_after (interactive_turn pr lower up now chatbot ev)))
     \<le> length (conversation_history chatbot) + 1"
  using interactive_turn_after [of pr lower up now chatbot ev]
    chat_history_length [of pr up now chatbot]
  by auto

lemma interactive_loop_prefix:
  "prefix (conversation_history chatbot)
     (conversation_history (self_after (interactive_loop pr lower chatbot script)))"
proof (induction script arbitrary: chatbot)
  case Nil
  show ?case by simp
next
  case (Cons step script)
  obtain ev up now where step: "step = (ev, up, now)" by (cases step)
  let ?r = "interactive_turn pr lower up now chatbot ev"
  have a: "prefix (conversation_history chatbot) (conversation_history (self_after ?r))"
    by (rule interactive_turn_prefix)
  also have "prefix (conversation_history (self_after ?r))
      (conversation_history (self_after (interactive_loop pr lower (self_after ?r) script)))"
    by (rule Cons.IH)
  finally show ?case
    using a by (simp add: step Let_def)
qed

lemma chat_endpoint_silent:
  assumes "sent (result (chat_endpoint env chatbot request)) = []"
  shows "history_of (chatbot_after (chat_endpoint env chatbot request)) = history_of chatbot"
proof (cases "initialize_chatbot env chatbot")
  case (Inl e)
  then show ?thesis by (simp add: chat_endpoint_after)
next
  case (Inr b)
  show ?thesis
  proof (cases "py_strip (message request) = []")
    case True
    with Inr show ?thesis
      by (simp add: chat_endpoint_after history_of_def init_history [OF Inr])
  next
    case False
    from assms chat_endpoint_chat(3) [OF Inr False] have False
      by (simp add: chat_sent)
    then show ?thesis ..
  qed
qed

text \<open>
  C9: a chat call leaves the stored turns as a prefix of the history and adds at most
  one turn; the health and stats endpoints leave the history as it is; the chat endpoint,
  and any sequence of web requests, keep the history they start from as a prefix, and
  the history grows by at most one turn for each chat request, and not at all when no
  request went to the client; the single-question mode, a pass of the interactive loop
  and the whole loop keep the history they start from as a prefix, the first two adding
  at most one turn. The context builder and the summary are functions of the chatbot
  that return no chatbot.
\<close>

theorem C9_append_only:
  "prefix (conversation_history self)
     (conversation_history (self_after (chat pr up now self user_input show_progress)))
   \<and> length (conversation_history (self_after (chat pr up now self user_input show_progress)))
       \<le> length (conversation_history self) + 1
   \<and> history_of (chatbot_after (health_check env chatbot)) = history_of chatbot
   \<and> history_of (chatbot_after (get_stats env chatbot)) = history_of chatbot
   \<and> prefix (history_of chatbot) (history_of (chatbot_after (chat_endpoint env chatbot request)))
   \<and> length (history_of (chatbot_after (chat_endpoint env chatbot request)))
       \<le> length (history_of chatbot) + 1
   \<and> (sent (result (chat_endpoint env chatbot request)) = [] \<longrightarrow>
        history_of (chatbot_after (chat_endpoint env chatbot request)) = history_of chatbot)
   \<and> prefix (history_of chatbot) (history_of (serve_all chatbot script))
   \<and> length (history_of (serve_all chatbot script))
       \<le> length (history_of chatbot) + length (filter is_chat (map snd script))
   \<and> prefix (conversation_history self)
       (conversation_history (self_after (single_question_mode pr up now self user_input)))
   \<and> length (conversation_history (self_after (single_question_mode pr up now self user_input)))
       \<le> length (conversation_history self) + 1
   \<and> prefix (conversation_history self)
       (conversation_history (self_after (interactive_turn pr lower up now self ev)))
   \<and> length (conversation_history (self_after (interactive_turn pr lower up now self ev)))
       \<le> length (conversation_history self) + 1
   \<and> prefix (conversation_history self)
       (conversation_history (self_after (interactive_loop pr lower self turns)))"
  using chat_endpoint_silent [of env chatbot request]
  by (intro conjI impI chat_history_prefix chat_history_length health_history stats_history
      chat_endpoint_prefix chat_endpoint_length serve_all_prefix serve_all_length
      single_question_prefix single_question_length interactive_turn_prefix
      interactive_turn_length interactive_loop_prefix)

theorem C9_append_only_witness:
  "history_of (Some (chatbot_with [1, 2])) = [numbered_turn 1, numbered_turn 2]
   \<and> conversation_history (self_after (chat example_console
        (service_answering 200 (py ''OK'') (reply_with (py ''ok''))) 7
        (chatbot_with [1, 2]) (py ''hi'') False)) =
       [numbered_turn 1, numbered_turn 2,
        \<lparr>user_message = py ''hi'', assistant_response = PStr (py ''ok''), timestamp = 7,
         search_triggered = True\<rparr>]
   \<and> sent (result (chat_endpoint (env_without_key service_down) None
        \<lparr>message = py ''hi'', conversation_id = None\<rparr>)) = []
   \<and> history_of (chatbot_after (chat_endpoint (env_without_key service_down) None
        \<lparr>message = py ''hi'', conversation_id = None\<rparr>)) = []
   \<and> prefix [numbered_turn 1, numbered_turn 2]
       (history_of (serve_all (Some (chatbot_with [1, 2]))
          [(env_with_key service_down, GetStats),
           (env_with_key (service_answering 200 (py ''OK'') (reply_with (py ''ok''))),
            PostChat \<lparr>message = py ''hi'', conversation_id = None\<rparr>),
           (env_without_key service_down, GetHealth)]))
   \<and> length (history_of (serve_all (Some (chatbot_with [1, 2]))
          [(env_with_key service_down, GetStats),
           (env_with_key (service_answering 200 (py ''OK'') (reply_with (py ''ok''))),
            PostChat \<lparr>message = py ''hi'', conversation_id = None\<rparr>),
           (env_without_key service_down, GetHealth)])) \<le> 3
   \<and> self_after (single_question_mode example_console service_down 7 (chatbot_with [1, 2])
        (py ''[/x]'')) = chatbot_with [1, 2]"
proof -
  let ?script = "[(env_with_key service_down, GetStats),
           (env_with_key (service_answering 200 (py ''OK'') (reply_with (py ''ok''))),
            PostChat \<lparr>message = py ''hi'', conversation_id = None\<rparr>),
           (env_without_key service_down, GetHealth)]"
  let ?rq = "\<lparr>message = py ''hi'', conversation_id = None\<rparr>"
  have h: "history_of (Some (chatbot_with [1, 2])) = [numbered_turn 1, numbered_turn 2]"
    "conversation_history (chatbot_with [1, 2]) = [numbered_turn 1, numbered_turn 2]"
    "history_of None = []"
    by (simp_all add: history_of_def chatbot_with_def)
  have c: "client_result example_console (service_answering 200 (py ''OK'') (reply_with (py ''ok'')))
      (chatbot_with [1, 2]) (py ''hi'') = Inr (reply_with (py ''ok''))"
    by (simp add: client_result_answering)
  note f = completion_first_content [OF completion_reply_with [of "py ''ok''"]]
  have a: "conversation_history (self_after (chat example_console
        (service_answering 200 (py ''OK'') (reply_with (py ''ok''))) 7
        (chatbot_with [1, 2]) (py ''hi'') False)) =
       [numbered_turn 1, numbered_turn 2,
        \<lparr>user_message = py ''hi'', assistant_response = PStr (py ''ok''), timestamp = 7,
         search_triggered = True\<rparr>]"
    by (simp only: chat_bot_client c) (simp add: f chatbot_with_def)
  have i: "initialize_chatbot (env_without_key service_down) None =
      Inl (RuntimeError (py ''PERPLEXITY_API_KEY environment variable is required''))"
    by (simp add: initialize_chatbot_def env_without_key_def)
  have s: "sent (result (chat_endpoint (env_without_key service_down) None ?rq)) = []"
    by (simp add: chat_endpoint_def i)
  have q: "self_after (single_question_mode example_console service_down 7 (chatbot_with [1, 2])
        (py ''[/x]'')) = chatbot_with [1, 2]"
    by (simp add: single_question_mode_def example_console_def py_def)
  show ?thesis
    using C9_append_only [where self = "chatbot_with [1, 2]" and pr = example_console
        and up = "service_answering 200 (py ''OK'') (reply_with (py ''ok''))" and now = 7
        and user_input = "py ''hi''" and show_progress = False
        and env = "env_with_key service_down" and chatbot = "Some (chatbot_with [1, 2])"
        and script = ?script]
      C9_append_only [where env = "env_without_key service_down" and chatbot = None
        and request = ?rq] h a s q
    by (simp add: numeral_3_eq_3)
qed

section \<open>Texts that the console refuses\<close>

text \<open>
  A question that holds a closing tag: the single-question mode ends with the exception
  of the console before the chat call; nothing is sent and the chatbot is as it was.
\<close>

lemma single_question_markup_error:
  "single_question_mode example_console up now chatbot (py ''[/x]'') =
     \<lparr>out = \<lparr>sent = [], console = [], ret = Inl (MarkupError (py ''[/x]''))\<rparr>,
      self_after = chatbot\<rparr>"
  by (simp add: single_question_mode_def example_console_def py_def)

text \<open>
  An answer that holds a closing tag: in the interactive loop the answer is stored, the
  console refuses to print it, then refuses to print the error, and the exception leaves
  the loop.
\<close>

lemma interactive_turn_markup_error:
  "ret (out (interactive_turn example_console ascii_lower
      (service_answering 200 (py ''OK'') (reply_with (py ''[/x]''))) now (chatbot_with [])
      (Entered (py ''hi'')))) = Inl (MarkupError (py ''[/x]''))
   \<and> conversation_history (self_after (interactive_turn example_console ascii_lower
      (service_answering 200 (py ''OK'') (reply_with (py ''[/x]''))) now (chatbot_with [])
      (Entered (py ''hi'')))) =
     [\<lparr>user_message = py ''hi'', assistant_response = PStr (py ''[/x]''), timestamp = now,
       search_triggered = True\<rparr>]"
proof -
  let ?up = "service_answering 200 (py ''OK'') (reply_with (py ''[/x]''))"
  let ?r = "chat example_console ?up now (chatbot_with []) (py ''hi'') True"
  have c: "client_result example_console ?up (chatbot_with []) (py ''hi'') = Inr (reply_with (py ''[/x]''))"
    by (simp add: client_result_answering)
  note f = completion_first_content [OF completion_reply_with [of "py ''[/x]''"]]
  have r: "ret (out ?r) = Inr (PStr (py ''[/x]''))"
    by (simp only: chat_ret_client c) (simp add: f)
  have b: "conversation_history (self_after ?r) =
      [\<lparr>user_message = py ''hi'', assistant_response = PStr (py ''[/x]''), timestamp = now,
        search_triggered = True\<rparr>]"
    by (simp only: chat_bot_client c) (simp add: f chatbot_with_def)
  have p: "example_console (AssistantLine (PStr (py ''[/x]''))) = Some (MarkupError (py ''[/x]''))"
    "example_console (WhoopsLine (MarkupError (py ''[/x]''))) = Some (MarkupError (py ''[/x]''))"
    by (simp_all add: example_console_def py_def)
  have x: "py_strip (ascii_lower (py ''hi'')) \<notin> set EXIT_COMMANDS" "py_strip (py ''hi'') \<noteq> []"
    by (simp_all add: py_strip_def ascii_lower_def EXIT_COMMANDS_def py_def isspace_def)
  show ?thesis
    by (simp add: interactive_turn_def Let_def x r b p loop_except_def)
qed

section \<open>The health endpoint\<close>

lemma health_check_ret:
  "ret (result (health_check env chatbot)) =
     Inr \<lparr>status = py ''healthy'',
          chatbot_ready = (case initialize_chatbot env chatbot of Inl e \<Rightarrow> False | Inr b \<Rightarrow> True),
          health_message = RUNNING_MESSAGE,
          environment_name =
            (if (case VERCEL env of None \<Rightarrow> False | Some v \<Rightarrow> v \<noteq> []) then py ''vercel''
             else py ''local'')\<rparr>"
  by (simp add: health_check_def Let_def)

text \<open>
  C10: the health endpoint always returns a body, never an exception; the status of the
  body is \<open>healthy\<close>, and \<open>chatbot_ready\<close> tells whether there is a chatbot; when the
  initialization fails, the status is still \<open>healthy\<close> and \<open>chatbot_ready\<close> is false.
\<close>

theorem C10_health_always_healthy:
  "(\<exists>h. ret (result (health_check env chatbot)) = Inr h
        \<and> status h = py ''healthy''
        \<and> chatbot_ready h = (chatbot \<noteq> None \<or> (\<exists>k. PERPLEXITY_API_KEY env = Some k \<and> k \<noteq> [])))
   \<and> ((\<exists>e. initialize_chatbot env chatbot = Inl e) \<longrightarrow>
        (\<exists>h. ret (result (health_check env chatbot)) = Inr h
           \<and> status h = py ''healthy'' \<and> chatbot_ready h = False))"
proof -
  have "(case initialize_chatbot env chatbot of Inl e \<Rightarrow> False | Inr b \<Rightarrow> True) =
      (chatbot \<noteq> None \<or> (\<exists>k. PERPLEXITY_API_KEY env = Some k \<and> k \<noteq> []))"
    unfolding init_ok_iff [symmetric] by (simp split: sum.splits)
  then show ?thesis
    by (auto simp add: health_check_ret)
qed

theorem C10_health_always_healthy_witness:
  "initialize_chatbot (env_without_key service_down) None =
      Inl (RuntimeError (py ''PERPLEXITY_API_KEY environment variable is required''))
   \<and> ret (result (health_check (env_without_key service_down) None)) =
      Inr \<lparr>status = py ''healthy'', chatbot_ready = False, health_message = RUNNING_MESSAGE,
           environment_name = py ''local''\<rparr>"
proof -
  have i: "initialize_chatbot (env_without_key service_down) None =
      Inl (RuntimeError (py ''PERPLEXITY_API_KEY environment variable is required''))"
    by (simp add: initialize_chatbot_def env_without_key_def)
  have e: "\<exists>e. initialize_chatbot (env_without_key service_down) None = Inl e"
    using i by blast
  have v: "VERCEL (env_without_key service_down) = None"
    by (simp add: env_without_key_def)
  have r: "ret (result (health_check (env_without_key service_down) None)) =
      Inr \<lparr>status = py ''healthy'', chatbot_ready = False, health_message = RUNNING_MESSAGE,
           environment_name = py ''local''\<rparr>"
    by (simp add: health_check_ret i v)
  from C10_health_always_healthy [of "env_without_key service_down" None] e
  obtain h where "ret (result (health_check (env_without_key service_down) None)) = Inr h"
    and "status h = py ''healthy''" and "chatbot_ready h = False"
    by blast
  with i r show ?thesis by simp
qed

section \<open>Empty input\<close>

lemma blank_not_exit: "[] \<notin> set EXIT_COMMANDS"
  by (simp add: EXIT_COMMANDS_def py_def)

lemma chat_endpoint_blank:
  assumes "py_strip (message request) = []"
  shows "chat_endpoint env chatbot request =
     (case initialize_chatbot env chatbot of
        Inl e \<Rightarrow>
          \<lparr>result = \<lparr>sent = [], console = [], ret = Inr (chat_failed e)\<rparr>, chatbot_after = chatbot\<rparr>
      | Inr b \<Rightarrow>
          \<lparr>result = \<lparr>sent = [], console = [],
                      ret = Inr \<lparr>response = READY_REPLY, success = True, error = None\<rparr>\<rparr>,
           chatbot_after = Some b\<rparr>)"
  using assms by (simp add: chat_endpoint_def split: sum.splits)

text \<open>
  C4, as amended: for a blank message, the chat endpoint and the loop of the interactive
  mode send no request and leave the history as it is. The chat endpoint returns the
  ready reply with \<open>success = True\<close> when there is a chatbot, and the fallback text with
  \<open>success = False\<close> and the error when the initialization fails; the interactive loop
  prints its ready line and goes on.
\<close>

theorem C4_blank_input:
  assumes "blank (message request)"
  shows "sent (result (chat_endpoint env chatbot request)) = []
    \<and> (chatbot \<noteq> None \<or> (\<exists>k. PERPLEXITY_API_KEY env = Some k \<and> k \<noteq> []) \<longrightarrow>
         ret (result (chat_endpoint env chatbot request)) =
           Inr \<lparr>response = READY_REPLY, success = True, error = None\<rparr>)
    \<and> (\<forall>e. initialize_chatbot env chatbot = Inl e \<longrightarrow>
         ret (result (chat_endpoint env chatbot request)) =
           Inr \<lparr>response = FALLBACK, success = False, error = Some e\<rparr>)
    \<and> history_of (chatbot_after (chat_endpoint env chatbot request)) = history_of chatbot
    \<and> sent (out (interactive_turn pr lower up now self (Entered (message request)))) = []
    \<and> self_after (interactive_turn pr lower up now self (Entered (message request))) = self
    \<and> (lower (message request) = message request \<longrightarrow>
         out (interactive_turn pr lower up now self (Entered (message request))) =
           \<lparr>sent = [], console = [ReadyLine], ret = Inr Continue\<rparr>)"
proof -
  have b: "py_strip (message request) = []"
    using assms by (simp add: strip_blank)
  have web: "sent (result (chat_endpoint env chatbot request)) = []"
    by (simp add: chat_endpoint_blank [OF b] split: sum.splits)
  have ok: "chatbot \<noteq> None \<or> (\<exists>k. PERPLEXITY_API_KEY env = Some k \<and> k \<noteq> []) \<longrightarrow>
         ret (result (chat_endpoint env chatbot request)) =
           Inr \<lparr>response = READY_REPLY, success = True, error = None\<rparr>"
    unfolding init_ok_iff [symmetric]
    by (auto simp add: chat_endpoint_blank [OF b])
  have bad: "\<forall>e. initialize_chatbot env chatbot = Inl e \<longrightarrow>
         ret (result (chat_endpoint env chatbot request)) =
           Inr \<lparr>response = FALLBACK, success = False, error = Some e\<rparr>"
    by (simp add: chat_endpoint_blank [OF b] chat_failed_def)
  have hist: "history_of (chatbot_after (chat_endpoint env chatbot request)) = history_of chatbot"
    by (cases "initialize_chatbot env chatbot")
       (simp_all add: chat_endpoint_blank [OF b] init_history history_of_def)
  have turn: "sent (out (interactive_turn pr lower up now self (Entered (message request)))) = []"
    "self_after (interactive_turn pr lower up now self (Entered (message request))) = self"
    using b by (simp_all add: interactive_turn_def)
  have ready: "lower (message request) = message request \<longrightarrow>
         out (interactive_turn pr lower up now self (Entered (message request))) =
           \<lparr>sent = [], console = [ReadyLine], ret = Inr Continue\<rparr>"
    using b blank_not_exit by (simp add: interactive_turn_def)
  from web ok bad hist turn ready show ?thesis by blast
qed

theorem C4_blank_input_witness:
  "blank (message \<lparr>message = [32, 9, 10], conversation_id = Some (py ''default'')\<rparr>)
   \<and> ascii_lower (message \<lparr>message = [32, 9, 10], conversation_id = Some (py ''default'')\<rparr>) =
       message \<lparr>message = [32, 9, 10], conversation_id = Some (py ''default'')\<rparr>
   \<and> sent (result (chat_endpoint (env_with_key service_down) None
        \<lparr>message = [32, 9, 10], conversation_id = Some (py ''default'')\<rparr>)) = []
   \<and> ret (result (chat_endpoint (env_with_key service_down) None
        \<lparr>message = [32, 9, 10], conversation_id = Some (py ''default'')\<rparr>)) =
       Inr \<lparr>response = READY_REPLY, success = True, error = None\<rparr>
   \<and> initialize_chatbot (env_without_key service_down) None =
       Inl (RuntimeError (py ''PERPLEXITY_API_KEY environment variable is required''))
   \<and> ret (result (chat_endpoint (env_without_key service_down) None
        \<lparr>message = [32, 9, 10], conversation_id = Some (py ''default'')\<rparr>)) =
       Inr \<lparr>response = FALLBACK, success = False,
            error = Some (RuntimeError (py ''PERPLEXITY_API_KEY environment variable is required''))\<rparr>
   \<and> out (interactive_turn example_console ascii_lower service_down 0 (chatbot_with [1]) (Entered [32, 9, 10])) =
       \<lparr>sent = [], console = [ReadyLine], ret = Inr Continue\<rparr>"
proof -
  let ?rq = "\<lparr>message = [32, 9, 10], conversation_id = Some (py ''default'')\<rparr>"
  have b: "blank (message ?rq)"
    by (simp add: blank_def isspace_def)
  have l: "ascii_lower (message ?rq) = message ?rq"
    by (simp add: ascii_lower_def)
  have k: "None \<noteq> (None :: TravelChatbot option)
      \<or> (\<exists>k. PERPLEXITY_API_KEY (env_with_key service_down) = Some k \<and> k \<noteq> [])"
    by (simp add: env_with_key_def py_def)
  have i: "initialize_chatbot (env_without_key service_down) None =
      Inl (RuntimeError (py ''PERPLEXITY_API_KEY environment variable is required''))"
    by (simp add: initialize_chatbot_def env_without_key_def)
  show ?thesis
    using C4_blank_input [OF b, where env = "env_with_key service_down" and chatbot = None
        and pr = example_console and lower = ascii_lower and up = service_down and now = 0
        and self = "chatbot_with [1]"]
      C4_blank_input [OF b, where env = "env_without_key service_down" and chatbot = None] b l k i
    by simp
qed

text \<open>
  C4, as stated, fails: the single-question mode, started with a question of one blank,
  sends a request; and the chat endpoint without the credential answers the empty
  message with \<open>success = False\<close>.
\<close>

theorem C4_blank_input_counterexample:
  "blank [32]
   \<and> requests (main ascii_lower (env_with_key service_down) (Some [32]) []) =
       [api_request (py ''pplx-key'')
          [\<lparr>role = py ''system'', content = PStr SYSTEM_PROMPT\<rparr>,
           \<lparr>role = py ''user'', content = PStr [32]\<rparr>]
          (py ''low'')]
   \<and> blank []
   \<and> ret (result (chat_endpoint (env_without_key service_down) None
        \<lparr>message = [], conversation_id = Some (py ''default'')\<rparr>)) =
       Inr \<lparr>response = FALLBACK, success = False,
            error = Some (RuntimeError (py ''PERPLEXITY_API_KEY environment variable is required''))\<rparr>"
proof -
  have b: "blank [32]" "blank []"
    by (simp_all add: blank_def isspace_def)
  have k: "PERPLEXITY_API_KEY (env_with_key service_down) = Some (py ''pplx-key'')"
    "py ''pplx-key'' \<noteq> []" "service (env_with_key service_down) = service_down"
    "console_print (env_with_key service_down) = example_console"
    by (simp_all add: env_with_key_def py_def)
  have q: "example_console (QuestionLine [32]) = None"
    by (simp add: example_console_def py_def)
  have m: "chat_messages (TravelChatbot_init (py ''pplx-key'')) [32] =
      [\<lparr>role = py ''system'', content = PStr SYSTEM_PROMPT\<rparr>,
       \<lparr>role = py ''user'', content = PStr [32]\<rparr>]"
    by (simp add: chat_messages_def get_conversation_context_def TravelChatbot_init_def)
  have s: "search_context_of [32] = py ''low''"
    by (simp add: search_context_of_def py_split_def isspace_def)
  have a: "api (TravelChatbot_init (py ''pplx-key'')) = py ''pplx-key''"
    by (simp add: TravelChatbot_init_def)
  have cli: "requests (main ascii_lower (env_with_key service_down) (Some [32]) []) =
      sent (out (chat example_console service_down (clock (env_with_key service_down))
        (TravelChatbot_init (py ''pplx-key'')) [32] True))"
    by (simp add: main_def k Let_def single_question_sent [where pr = example_console and question = "[32]", OF q])
  have i: "initialize_chatbot (env_without_key service_down) None =
      Inl (RuntimeError (py ''PERPLEXITY_API_KEY environment variable is required''))"
    by (simp add: initialize_chatbot_def env_without_key_def)
  have web: "ret (result (chat_endpoint (env_without_key service_down) None
        \<lparr>message = [], conversation_id = Some (py ''default'')\<rparr>)) =
       Inr \<lparr>response = FALLBACK, success = False,
            error = Some (RuntimeError (py ''PERPLEXITY_API_KEY environment variable is required''))\<rparr>"
    by (simp add: chat_endpoint_def i chat_failed_def)
  show ?thesis
    by (simp add: b cli chat_sent m s a web)
qed

end
